theory Spec2Isabelle
  imports Complex_Main "HOL-Library.Char_ord" "HOL-Library.List_Lexorder" "HOL-Library.AList"
begin

section \<open>Numbers\<close>

text \<open>
  A JavaScript number is an IEEE 754 binary64 value: a finite value, which is a rational
  number, one of the two zeros, one of the two infinities, or NaN. \<open>Num 0\<close> is the
  positive zero and \<open>NegZero\<close> the negative one. Every arithmetic operation returns the
  exact result rounded to the nearest binary64 value, ties to the value with an even
  significand.
\<close>

datatype double = Num rat | NegZero | PosInf | NegInf | NaN

text \<open>The number of binary digits of a positive integer, and the powers of two.\<close>

function bits :: "int \<Rightarrow> int" where
  "bits n = (if n \<le> 0 then 0 else 1 + bits (n div 2))"
  by pat_completeness auto
termination
  by (relation "measure nat") auto

declare bits.simps [simp del]

definition pow2 :: "int \<Rightarrow> rat" where
  "pow2 k = (if 0 \<le> k then 2 ^ nat k else 1 / 2 ^ nat (- k))"

text \<open>For a positive rational \<open>q\<close>, the exponent \<open>e\<close> with \<open>2 ^ e \<le> q < 2 ^ (e + 1)\<close>.\<close>

definition floorLog2 :: "rat \<Rightarrow> int" where
  "floorLog2 q =
     (case quotient_of q of (a, b) \<Rightarrow>
        (let e0 = bits a - bits b
         in if pow2 e0 \<le> q then e0 else e0 - 1))"

definition roundHalfEven :: "rat \<Rightarrow> int" where
  "roundHalfEven x =
     (let f = \<lfloor>x\<rfloor>; d = x - of_int f
      in if d < 1 / 2 then f else if 1 / 2 < d then f + 1 else if even f then f else f + 1)"

text \<open>
  Rounding of an exact result to binary64. The significand has 53 binary digits; below
  \<open>2 ^ - 1022\<close> the values are the multiples of \<open>2 ^ - 1074\<close>; a result that rounds to
  \<open>2 ^ 1024\<close> or more is an infinity, and one that rounds to nothing is a zero of the
  sign of the exact result. An exact zero rounds to the positive zero.
\<close>

definition roundD :: "rat \<Rightarrow> double" where
  "roundD q =
     (if q = 0 then Num 0
      else (let a = \<bar>q\<bar>;
                e = max (floorLog2 a) (- 1022);
                u = pow2 (e - 52);
                v = of_int (roundHalfEven (a / u)) * u
            in if v = 0 then (if 0 < q then Num 0 else NegZero)
               else if 1024 \<le> floorLog2 v then (if 0 < q then PosInf else NegInf)
               else Num (if 0 < q then v else - v)))"

fun isNeg :: "double \<Rightarrow> bool" where
  "isNeg (Num q) = (q < 0)"
| "isNeg NegZero = True"
| "isNeg PosInf = False"
| "isNeg NegInf = True"
| "isNeg NaN = False"

fun isZero :: "double \<Rightarrow> bool" where
  "isZero (Num q) = (q = 0)"
| "isZero NegZero = True"
| "isZero PosInf = False"
| "isZero NegInf = False"
| "isZero NaN = False"

fun isInf :: "double \<Rightarrow> bool" where
  "isInf (Num q) = False"
| "isInf NegZero = False"
| "isInf PosInf = True"
| "isInf NegInf = True"
| "isInf NaN = False"

text \<open>The rational that a finite value denotes.\<close>

fun ratOf :: "double \<Rightarrow> rat" where
  "ratOf (Num q) = q"
| "ratOf NegZero = 0"
| "ratOf PosInf = 0"
| "ratOf NegInf = 0"
| "ratOf NaN = 0"

definition zeroOf :: "bool \<Rightarrow> double" where
  "zeroOf negative = (if negative then NegZero else Num 0)"

definition infOf :: "bool \<Rightarrow> double" where
  "infOf negative = (if negative then NegInf else PosInf)"

text \<open>Unary minus, \<^verbatim>\<open>+\<close>, \<^verbatim>\<open>-\<close>, \<^verbatim>\<open>*\<close> and \<^verbatim>\<open>/\<close>.\<close>

fun dneg :: "double \<Rightarrow> double" where
  "dneg (Num q) = (if q = 0 then NegZero else Num (- q))"
| "dneg NegZero = Num 0"
| "dneg PosInf = NegInf"
| "dneg NegInf = PosInf"
| "dneg NaN = NaN"

definition dadd :: "double \<Rightarrow> double \<Rightarrow> double" where
  "dadd x y =
     (if x = NaN \<or> y = NaN then NaN
      else if isInf x then (if isInf y \<and> x \<noteq> y then NaN else x)
      else if isInf y then y
      else if x = NegZero \<and> y = NegZero then NegZero
      else roundD (ratOf x + ratOf y))"

definition dsub :: "double \<Rightarrow> double \<Rightarrow> double" where
  "dsub x y = dadd x (dneg y)"

definition dmul :: "double \<Rightarrow> double \<Rightarrow> double" where
  "dmul x y =
     (if x = NaN \<or> y = NaN then NaN
      else if (isInf x \<and> isZero y) \<or> (isZero x \<and> isInf y) then NaN
      else if isInf x \<or> isInf y then infOf (isNeg x \<noteq> isNeg y)
      else if isZero x \<or> isZero y then zeroOf (isNeg x \<noteq> isNeg y)
      else roundD (ratOf x * ratOf y))"

definition ddiv :: "double \<Rightarrow> double \<Rightarrow> double" where
  "ddiv x y =
     (if x = NaN \<or> y = NaN then NaN
      else if (isInf x \<and> isInf y) \<or> (isZero x \<and> isZero y) then NaN
      else if isInf x \<or> isZero y then infOf (isNeg x \<noteq> isNeg y)
      else if isInf y \<or> isZero x then zeroOf (isNeg x \<noteq> isNeg y)
      else roundD (ratOf x / ratOf y))"

text \<open>
  The comparisons \<^verbatim>\<open>x <= y\<close> and \<^verbatim>\<open>x < y\<close>: false when an operand is NaN; the two
  zeros are equal.
\<close>

definition dle :: "double \<Rightarrow> double \<Rightarrow> bool" where
  "dle x y =
     (x \<noteq> NaN \<and> y \<noteq> NaN
      \<and> (x = NegInf \<or> y = PosInf \<or> (\<not> isInf x \<and> \<not> isInf y \<and> ratOf x \<le> ratOf y)))"

definition dlt :: "double \<Rightarrow> double \<Rightarrow> bool" where
  "dlt x y = (x \<noteq> NaN \<and> y \<noteq> NaN \<and> \<not> dle y x)"

text \<open>\<^verbatim>\<open>Math.max(x, y)\<close>: NaN when an operand is; the positive zero is the larger zero.\<close>

definition dmax :: "double \<Rightarrow> double \<Rightarrow> double" where
  "dmax x y =
     (if x = NaN \<or> y = NaN then NaN
      else if dlt x y then y
      else if dlt y x then x
      else if x = NegZero then y else x)"

text \<open>A number is falsy when it is a zero or NaN.\<close>

definition dtruthy :: "double \<Rightarrow> bool" where
  "dtruthy x = (x \<noteq> NaN \<and> \<not> isZero x)"

text \<open>The integer part of a rational, towards zero.\<close>

definition truncR :: "rat \<Rightarrow> int" where
  "truncR q = (if 0 \<le> q then \<lfloor>q\<rfloor> else \<lceil>q\<rceil>)"

text \<open>The value of a decimal literal or of an integer: the nearest binary64 value.\<close>

definition lit :: "rat \<Rightarrow> double" where
  "lit q = roundD q"


section \<open>Levenshtein distance\<close>

text \<open>
  \<^verbatim>\<open>MemoryProcessor.levenshteinDistance\<close> and \<^verbatim>\<open>SearchEngine.levenshteinDistance\<close>
  both build a matrix: row 0 is \<^verbatim>\<open>[0, 1, ..., len2]\<close>, row \<^verbatim>\<open>i\<close> starts as
  \<^verbatim>\<open>[i]\<close> and the inner loop writes \<^verbatim>\<open>matrix[i][j]\<close> one past the end of the
  row, which extends it. A JavaScript string is a sequence of UTF-16 code units; the model
  uses \<open>string\<close>, whose characters cover the code units 0 to 255.
\<close>

definition fillCell :: "string \<Rightarrow> string \<Rightarrow> nat \<Rightarrow> nat list \<Rightarrow> nat list \<Rightarrow> nat \<Rightarrow> nat list" where
  "fillCell str1 str2 i prevRow row j =
     (let cost = (if str1 ! (i - 1) = str2 ! (j - 1) then 0 else 1)
      in row @ [min (min (prevRow ! j + 1) (row ! (j - 1) + 1)) (prevRow ! (j - 1) + cost)])"

definition fillRow :: "string \<Rightarrow> string \<Rightarrow> nat list list \<Rightarrow> nat \<Rightarrow> nat list list" where
  "fillRow str1 str2 matrix i =
     matrix @ [foldl (fillCell str1 str2 i (matrix ! (i - 1))) [i] [1..<Suc (length str2)]]"

text \<open>The processor's copy (part\_004, lines 482 to 509).\<close>

definition levenshteinDistance :: "string \<Rightarrow> string \<Rightarrow> nat" where
  "levenshteinDistance str1 str2 =
     (let len1 = length str1; len2 = length str2 in
      if len1 = 0 then len2
      else if len2 = 0 then len1
      else (foldl (fillRow str1 str2) [[0..<Suc len2]] [1..<Suc len1]) ! len1 ! len2)"

text \<open>The search engine's copy (search-engine.js, lines 132 to 161), transcribed on its own.\<close>

definition searchFillCell :: "string \<Rightarrow> string \<Rightarrow> nat \<Rightarrow> nat list \<Rightarrow> nat list \<Rightarrow> nat \<Rightarrow> nat list" where
  "searchFillCell str1 str2 i prevRow row j =
     (let cost = (if str1 ! (i - 1) = str2 ! (j - 1) then 0 else 1)
      in row @ [min (min (prevRow ! j + 1) (row ! (j - 1) + 1)) (prevRow ! (j - 1) + cost)])"

definition searchFillRow :: "string \<Rightarrow> string \<Rightarrow> nat list list \<Rightarrow> nat \<Rightarrow> nat list list" where
  "searchFillRow str1 str2 matrix i =
     matrix @ [foldl (searchFillCell str1 str2 i (matrix ! (i - 1))) [i] [1..<Suc (length str2)]]"

definition searchLevenshteinDistance :: "string \<Rightarrow> string \<Rightarrow> nat" where
  "searchLevenshteinDistance str1 str2 =
     (let len1 = length str1; len2 = length str2 in
      if len1 = 0 then len2
      else if len2 = 0 then len1
      else (foldl (searchFillRow str1 str2) [[0..<Suc len2]] [1..<Suc len1]) ! len1 ! len2)"

text \<open>
  The reference: the usual recursive definition of the edit distance with unit cost for
  an insertion, a deletion and a substitution.
\<close>

fun lev :: "string \<Rightarrow> string \<Rightarrow> nat" where
  "lev [] ys = length ys"
| "lev (x # xs) [] = Suc (length xs)"
| "lev (x # xs) (y # ys) =
     min (min (lev xs (y # ys) + 1) (lev (x # xs) ys + 1)) (lev xs ys + (if x = y then 0 else 1))"

text \<open>Cell \<open>(i, j)\<close> of the matrix holds the distance between the prefixes of length \<open>i\<close> and \<open>j\<close>.\<close>

definition levRow :: "string \<Rightarrow> string \<Rightarrow> nat \<Rightarrow> nat \<Rightarrow> nat list" where
  "levRow str1 str2 i n = map (\<lambda>j. lev (take i str1) (take j str2)) [0..<Suc n]"

definition levMatrix :: "string \<Rightarrow> string \<Rightarrow> nat \<Rightarrow> nat list list" where
  "levMatrix str1 str2 m = map (\<lambda>i. levRow str1 str2 i (length str2)) [0..<Suc m]"


section \<open>JavaScript strings\<close>

text \<open>
  The string operations of the language that the source calls, on code units 0 to 255.
  White space is what \<^verbatim>\<open>\s\<close> and \<^verbatim>\<open>trim\<close> take as such in that range (tab, line feed,
  vertical tab, form feed, carriage return, space, no-break space); a word character is
  what \<^verbatim>\<open>\w\<close> matches.
\<close>

definition code :: "char \<Rightarrow> nat" where
  "code c = of_char c"

definition isSpace :: "char \<Rightarrow> bool" where
  "isSpace c = (code c \<in> {9, 10, 11, 12, 13, 32, 160})"

definition isUpper :: "char \<Rightarrow> bool" where
  "isUpper c = (65 \<le> code c \<and> code c \<le> 90)"

definition isLower :: "char \<Rightarrow> bool" where
  "isLower c = (97 \<le> code c \<and> code c \<le> 122)"

definition isDigit :: "char \<Rightarrow> bool" where
  "isDigit c = (48 \<le> code c \<and> code c \<le> 57)"

definition isWord :: "char \<Rightarrow> bool" where
  "isWord c = (isUpper c \<or> isLower c \<or> isDigit c \<or> c = CHR ''_'')"

text \<open>
  \<^verbatim>\<open>toLowerCase\<close>: the letters A to Z and the capital letters of Latin-1 (code units 192
  to 222 without the multiplication sign 215) move up by 32.
\<close>

definition toLowerChar :: "char \<Rightarrow> char" where
  "toLowerChar c =
     (if isUpper c \<or> (192 \<le> code c \<and> code c \<le> 222 \<and> code c \<noteq> 215)
      then char_of (code c + 32) else c)"

definition toUpperAscii :: "char \<Rightarrow> char" where
  "toUpperAscii c = (if isLower c then char_of (code c - 32) else c)"

definition toLowerCase :: "string \<Rightarrow> string" where
  "toLowerCase s = map toLowerChar s"

definition trim :: "string \<Rightarrow> string" where
  "trim s = rev (dropWhile isSpace (rev (dropWhile isSpace s)))"

text \<open>\<^verbatim>\<open>substring(a, b)\<close> clamps both indices to the length and swaps them when \<open>a > b\<close>.\<close>

definition substring :: "string \<Rightarrow> nat \<Rightarrow> nat \<Rightarrow> string" where
  "substring s a b =
     (let a' = min a (length s); b' = min b (length s);
          lo = min a' b'; hi = max a' b'
      in take (hi - lo) (drop lo s))"



text \<open>
  \<^verbatim>\<open>split(/\s+/)\<close>: every maximal run of white space separates two pieces, so a string
  that starts or ends with white space has an empty first or last piece, and the empty
  string splits into one empty piece.
\<close>

fun splitWsFrom :: "string \<Rightarrow> bool \<Rightarrow> string \<Rightarrow> string list" where
  "splitWsFrom acc inWs [] = [rev acc]"
| "splitWsFrom acc inWs (c # cs) =
     (if isSpace c then (if inWs then splitWsFrom acc True cs else rev acc # splitWsFrom [] True cs)
      else splitWsFrom (c # acc) False cs)"

definition splitWs :: "string \<Rightarrow> string list" where
  "splitWs s = splitWsFrom [] False s"

text \<open>\<^verbatim>\<open>join(sep)\<close>.\<close>

fun joinWith :: "string \<Rightarrow> string list \<Rightarrow> string" where
  "joinWith sep [] = []"
| "joinWith sep [s] = s"
| "joinWith sep (s # t # ss) = s @ sep @ joinWith sep (t # ss)"

text \<open>The decimal rendering of a natural number, as template strings and dates print it.\<close>

fun decimal :: "nat \<Rightarrow> string" where
  "decimal n = (if n < 10 then [char_of (48 + n)] else decimal (n div 10) @ [char_of (48 + n mod 10)])"

declare decimal.simps [simp del]

definition padStart :: "nat \<Rightarrow> string \<Rightarrow> string" where
  "padStart w s = replicate (w - length s) (CHR ''0'') @ s"


section \<open>The regular expressions of the extractor\<close>

text \<open>
  The extractor's patterns use literals, alternatives, optional groups, the assertion
  \<^verbatim>\<open>\b\<close> and greedy repetition of a character class only. \<open>rxEnds\<close> lists the
  positions where a match of a pattern that starts at \<open>p\<close> can end, in the order in which
  a backtracking matcher tries them (a greedy repetition tries its longest run first, an
  optional group tries its body first), so the first complete match of a sequence is the
  one \<^verbatim>\<open>exec\<close> returns. With the flag \<^verbatim>\<open>i\<close> a character matches a class when it or
  its other letter case does; only the letters A to Z have another case here, as a code
  unit above 127 never folds to one below.
\<close>

datatype rx =
    Lit string
  | Rep nat "nat option" "char \<Rightarrow> bool"
  | Seq rx rx
  | Alt rx rx
  | Opt rx
  | WordB

definition clsMatch :: "bool \<Rightarrow> (char \<Rightarrow> bool) \<Rightarrow> char \<Rightarrow> bool" where
  "clsMatch ci P c =
     (P c \<or> (ci \<and> (isUpper c \<and> P (toLowerChar c) \<or> isLower c \<and> P (toUpperAscii c))))"

definition litMatch :: "bool \<Rightarrow> string \<Rightarrow> string \<Rightarrow> bool" where
  "litMatch ci l s =
     (length l = length s \<and> list_all (\<lambda>(a, b). clsMatch ci (\<lambda>c. c = a) b) (zip l s))"

definition wordAt :: "string \<Rightarrow> nat \<Rightarrow> bool" where
  "wordAt t p = (p < length t \<and> isWord (t ! p))"

definition boundaryAt :: "string \<Rightarrow> nat \<Rightarrow> bool" where
  "boundaryAt t p = ((p > 0 \<and> wordAt t (p - 1)) \<noteq> wordAt t p)"

fun rxEnds :: "bool \<Rightarrow> rx \<Rightarrow> string \<Rightarrow> nat \<Rightarrow> nat list" where
  "rxEnds ci (Lit l) t p =
     (if litMatch ci l (take (length l) (drop p t)) then [p + length l] else [])"
| "rxEnds ci (Rep lo hi P) t p =
     (let n = length (takeWhile (clsMatch ci P) (drop p t));
          m = (case hi of None \<Rightarrow> n | Some h \<Rightarrow> min n h)
      in if m < lo then [] else map (\<lambda>k. p + k) (rev [lo..<Suc m]))"
| "rxEnds ci (Seq a b) t p = concat (map (rxEnds ci b t) (rxEnds ci a t p))"
| "rxEnds ci (Alt a b) t p = rxEnds ci a t p @ rxEnds ci b t p"
| "rxEnds ci (Opt a) t p = rxEnds ci a t p @ [p]"
| "rxEnds ci WordB t p = (if boundaryAt t p then [p] else [])"

text \<open>
  A pattern with one capture group is written as what precedes the group, the group and
  what follows it. A match is its start (\<^verbatim>\<open>match.index\<close>), the group's start and end
  (\<^verbatim>\<open>match[1]\<close>) and its own end (the next \<^verbatim>\<open>lastIndex\<close>).
\<close>

record pattern =
  ignoreCase :: bool
  before :: rx
  capture :: rx
  after :: rx

record rmatch =
  index :: nat
  groupStart :: nat
  groupEnd :: nat
  matchEnd :: nat

definition matchAt :: "pattern \<Rightarrow> string \<Rightarrow> nat \<Rightarrow> rmatch option" where
  "matchAt pat t s =
     (case concat (map (\<lambda>p1. concat (map (\<lambda>p2. map (\<lambda>p3. (p1, p2, p3))
                 (rxEnds (ignoreCase pat) (after pat) t p2))
              (rxEnds (ignoreCase pat) (capture pat) t p1)))
           (rxEnds (ignoreCase pat) (before pat) t s)) of
        [] \<Rightarrow> None
      | (p1, p2, p3) # _ \<Rightarrow> Some \<lparr>index = s, groupStart = p1, groupEnd = p2, matchEnd = p3\<rparr>)"

text \<open>
  The loop \<^verbatim>\<open>while ((match = re.exec(text)) !== null)\<close> of a global pattern:
  \<^verbatim>\<open>exec\<close> looks for the first start at or after \<^verbatim>\<open>lastIndex\<close> where the pattern
  matches and moves \<^verbatim>\<open>lastIndex\<close> to the end of that match. A match that consumes
  nothing would leave \<^verbatim>\<open>lastIndex\<close> in place; \<open>execAll\<close> stops there (every pattern of
  the extractor consumes at least one character, lemma \<open>extractor_patterns_consume\<close>).
\<close>

function execAll :: "pattern \<Rightarrow> string \<Rightarrow> nat \<Rightarrow> rmatch list" where
  "execAll pat t s =
     (if length t < s then []
      else case matchAt pat t s of
             None \<Rightarrow> execAll pat t (Suc s)
           | Some m \<Rightarrow> m # (if s < matchEnd m then execAll pat t (matchEnd m) else []))"
  by pat_completeness auto
termination
  by (relation "measure (\<lambda>(pat, t, s). Suc (length t) - s)") auto

declare execAll.simps [simp del]

definition groupText :: "string \<Rightarrow> rmatch \<Rightarrow> string" where
  "groupText t m = take (groupEnd m - groupStart m) (drop (groupStart m) t)"

definition wholeText :: "string \<Rightarrow> rmatch \<Rightarrow> string" where
  "wholeText t m = take (matchEnd m - index m) (drop (index m) t)"

text \<open>A lower bound on what a pattern consumes.\<close>

fun rxMin :: "rx \<Rightarrow> nat" where
  "rxMin (Lit l) = length l"
| "rxMin (Rep lo hi P) = lo"
| "rxMin (Seq a b) = rxMin a + rxMin b"
| "rxMin (Alt a b) = min (rxMin a) (rxMin b)"
| "rxMin (Opt a) = 0"
| "rxMin WordB = 0"

definition patMin :: "pattern \<Rightarrow> nat" where
  "patMin pat = rxMin (before pat) + rxMin (capture pat) + rxMin (after pat)"


section \<open>The entity extractor\<close>

datatype entityType = Person | Project | Knowledge | Question | Thought | Pattern

text \<open>
  A candidate \<^verbatim>\<open>{type, name, description?, context}\<close>; people and projects carry no
  description.
\<close>

record candidate =
  typeC :: entityType
  nameC :: string
  descriptionC :: "string option"
  contextC :: string

text \<open>A message \<^verbatim>\<open>{role, content}\<close> (its \<^verbatim>\<open>timestamp\<close> field is never read).\<close>

record message =
  role :: string
  content :: string

fun alts :: "string list \<Rightarrow> rx" where
  "alts [] = Rep 1 (Some 0) (\<lambda>c. False)"
| "alts [l] = Lit l"
| "alts (l # k # ls) = Alt (Lit l) (alts (k # ls))"

definition one :: "(char \<Rightarrow> bool) \<Rightarrow> rx" where
  "one P = Rep 1 (Some 1) P"

definition spaces :: rx where
  "spaces = Rep 1 None isSpace"

definition isLetterOrSpace :: "char \<Rightarrow> bool" where
  "isLetterOrSpace c = (isLower c \<or> isUpper c \<or> isSpace c)"

definition isTerminator :: "char \<Rightarrow> bool" where
  "isTerminator c = (c = CHR ''.'' \<or> c = CHR ''!'' \<or> c = CHR ''?'')"

definition isTerminatorOrNewline :: "char \<Rightarrow> bool" where
  "isTerminatorOrNewline c = (isTerminator c \<or> c = CHR 0x0A)"

text \<open>\<^verbatim>\<open>getContext\<close>, \<^verbatim>\<open>summarize\<close> and \<^verbatim>\<open>isCommonNonName\<close>.\<close>

definition getContext :: "string \<Rightarrow> nat \<Rightarrow> nat \<Rightarrow> string" where
  "getContext text position radius =
     (let start = position - radius; end = min (length text) (position + radius)
      in trim (substring text start end))"

definition summarize :: "string \<Rightarrow> nat \<Rightarrow> string" where
  "summarize text maxLength =
     (if length text \<le> maxLength then text else trim (substring text 0 maxLength) @ ''...'')"

definition common :: "string list" where
  "common =
     [''ChatGPT'', ''The'', ''This'', ''That'', ''There'', ''What'', ''Where'', ''When'', ''Why'', ''How'',
      ''Can'', ''Will'', ''Would'', ''Could'', ''Should'', ''May'', ''Might'', ''Must'',
      ''Yes'', ''No'', ''True'', ''False'', ''Error'', ''Success'', ''Warning'', ''Info'']"

definition isCommonNonName :: "string \<Rightarrow> bool" where
  "isCommonNonName name = (name \<in> set common)"

subsection \<open>People\<close>

text \<open>
  \<^verbatim>\<open>/\b([A-Z][a-z]+ (?:[A-Z][a-z]+))\b/g\<close>: two capitalised words, case-sensitive.
\<close>

definition namePattern :: pattern where
  "namePattern =
     \<lparr>ignoreCase = False,
      before = WordB,
      capture = Seq (one isUpper) (Seq (Rep 1 None isLower)
                  (Seq (Lit '' '') (Seq (one isUpper) (Rep 1 None isLower)))),
      after = WordB\<rparr>"

text \<open>
  \<^verbatim>\<open>/(?:with|by|from|to|for|about|ask|meet|talk|call|email|message)\s+([A-Z][a-z]+)\b/gi\<close>.
\<close>

definition personIndicators :: pattern where
  "personIndicators =
     \<lparr>ignoreCase = True,
      before = Seq (alts [''with'', ''by'', ''from'', ''to'', ''for'', ''about'', ''ask'', ''meet'',
                          ''talk'', ''call'', ''email'', ''message'']) spaces,
      capture = Seq (one isUpper) (Rep 1 None isLower),
      after = WordB\<rparr>"

definition extractPeople :: "string \<Rightarrow> candidate list" where
  "extractPeople text =
     concat (map (\<lambda>m. let name = groupText text m in
                   if \<not> isCommonNonName name
                   then [\<lparr>typeC = Person, nameC = name, descriptionC = None,
                          contextC = getContext text (index m) 100\<rparr>]
                   else [])
              (execAll namePattern text 0))
     @ concat (map (\<lambda>m. let name = groupText text m in
                   if length name > 2 \<and> \<not> isCommonNonName name
                   then [\<lparr>typeC = Person, nameC = name, descriptionC = None,
                          contextC = getContext text (index m) 100\<rparr>]
                   else [])
              (execAll personIndicators text 0))"

subsection \<open>Projects\<close>

definition projectName :: rx where
  "projectName = Seq (one isUpper) (Rep 3 (Some 30) isLetterOrSpace)"

definition projectPatterns :: "pattern list" where
  "projectPatterns =
     [\<lparr>ignoreCase = True,
       before = Seq (alts [''working on'', ''building'', ''creating'', ''developing'', ''making''])
                 (Seq spaces (Seq (Opt (Seq (Lit ''a'') spaces)) (Opt (Seq (Lit ''new'') spaces)))),
       capture = projectName,
       after = Lit []\<rparr>,
      \<lparr>ignoreCase = True,
       before = Seq (alts [''project'', ''app'', ''application'', ''system'', ''tool'', ''website'', ''platform''])
                 (Seq spaces (Seq (alts [''called'', ''named'']) spaces)),
       capture = projectName,
       after = Lit []\<rparr>,
      \<lparr>ignoreCase = True,
       before = Seq (alts [''my'', ''our'', ''the'']) spaces,
       capture = projectName,
       after = Seq spaces (alts [''project'', ''app'', ''application'', ''system'', ''tool''])\<rparr>]"

definition extractProjects :: "string \<Rightarrow> candidate list" where
  "extractProjects text =
     concat (map (\<lambda>pat.
        concat (map (\<lambda>m. let name = trim (groupText text m) in
                      if length name > 3 \<and> length name < 50
                      then [\<lparr>typeC = Project, nameC = name, descriptionC = None,
                             contextC = getContext text (index m) 150\<rparr>]
                      else [])
                 (execAll pat text 0)))
        projectPatterns)"

subsection \<open>Knowledge\<close>

definition learningPatterns :: "pattern list" where
  "learningPatterns =
     [\<lparr>ignoreCase = True,
       before = Seq (alts [''I learned'', ''I discovered'', ''I found out'', ''I realized'', ''I understood''])
                 (Seq spaces (Opt (Seq (Lit ''that'') spaces))),
       capture = Rep 10 (Some 200) (\<lambda>c. \<not> isTerminator c),
       after = one isTerminator\<rparr>,
      \<lparr>ignoreCase = True,
       before = Seq (alts [''TIL'', ''Today I learned'']) (Seq (Lit '':'') (Rep 0 None isSpace)),
       capture = Rep 10 (Some 200) (\<lambda>c. \<not> isTerminatorOrNewline c),
       after = one isTerminatorOrNewline\<rparr>,
      \<lparr>ignoreCase = True,
       before = Seq (alts [''interesting'', ''fascinating'', ''cool'']) (Seq (Lit '':'') spaces),
       capture = Rep 10 (Some 200) (\<lambda>c. \<not> isTerminatorOrNewline c),
       after = one isTerminatorOrNewline\<rparr>]"

definition extractKnowledge :: "string \<Rightarrow> candidate list" where
  "extractKnowledge text =
     concat (map (\<lambda>pat.
        map (\<lambda>m. let concept = trim (groupText text m) in
               \<lparr>typeC = Knowledge, nameC = summarize concept 50, descriptionC = Some concept,
                contextC = getContext text (index m) 150\<rparr>)
            (execAll pat text 0))
        learningPatterns)"

subsection \<open>Questions\<close>

text \<open>\<^verbatim>\<open>message.content.match(/[^.!?]*\?/g)\<close>: the whole match is the question.\<close>

definition questionPattern :: pattern where
  "questionPattern =
     \<lparr>ignoreCase = False,
      before = Lit [],
      capture = Seq (Rep 0 None (\<lambda>c. \<not> isTerminator c)) (Lit ''?''),
      after = Lit []\<rparr>"

definition extractQuestions :: "string \<Rightarrow> message list \<Rightarrow> candidate list" where
  "extractQuestions text messages =
     concat (map (\<lambda>msg.
        if role msg = ''user''
        then concat (map (\<lambda>m. let q = trim (wholeText (content msg) m) in
                            if length q > 10
                            then [\<lparr>typeC = Question, nameC = summarize q 60, descriptionC = Some q,
                                   contextC = q\<rparr>]
                            else [])
                       (execAll questionPattern (content msg) 0))
        else [])
        messages)"

subsection \<open>Thoughts\<close>

definition thoughtPatterns :: "pattern list" where
  "thoughtPatterns =
     [\<lparr>ignoreCase = True,
       before = Seq (alts [''I think'', ''I believe'', ''I feel'', ''my opinion is'', ''in my view''])
                 (Seq spaces (Opt (Seq (Lit ''that'') spaces))),
       capture = Rep 10 (Some 200) (\<lambda>c. \<not> isTerminator c),
       after = one isTerminator\<rparr>,
      \<lparr>ignoreCase = True,
       before = Seq (alts [''my idea is'', ''my thought is'', ''what if'']) spaces,
       capture = Rep 10 (Some 200) (\<lambda>c. \<not> isTerminator c),
       after = one isTerminator\<rparr>]"

definition extractThoughts :: "string \<Rightarrow> candidate list" where
  "extractThoughts text =
     concat (map (\<lambda>pat.
        map (\<lambda>m. let thought = trim (groupText text m) in
               \<lparr>typeC = Thought, nameC = summarize thought 50, descriptionC = Some thought,
                contextC = getContext text (index m) 150\<rparr>)
            (execAll pat text 0))
        thoughtPatterns)"

text \<open>\<^verbatim>\<open>extractEntities\<close>: people, projects, knowledge, questions, thoughts, in this order.\<close>

definition extractEntities :: "string \<Rightarrow> message list \<Rightarrow> candidate list" where
  "extractEntities text messages =
     extractPeople text @ extractProjects text @ extractKnowledge text
       @ extractQuestions text messages @ extractThoughts text"


section \<open>The data model of the processor\<close>

text \<open>
  A conversation id is \<^verbatim>\<open>conversation.id || conversation.conversation_id\<close>, which is
  \<^verbatim>\<open>undefined\<close> (\<open>None\<close>) when the record has neither.
\<close>

type_synonym convId = "string option"

text \<open>
  An entity. \<open>normalizedKey\<close> and \<open>contextM\<close> are the fields of its \<^verbatim>\<open>metadata\<close>.
  Timestamps are numbers: seconds since the epoch, with a fraction.
\<close>

record entity =
  idE :: string
  typeE :: entityType
  nameE :: string
  descriptionE :: string
  firstSeen :: double
  lastSeen :: double
  occurrences :: nat
  conversationsE :: "convId list"
  links :: "string list"
  normalizedKey :: string
  contextM :: "string"

record convData =
  idC :: convId
  titleC :: string
  timestampC :: double
  dateC :: string
  entitiesC :: "string list"

text \<open>
  A timeline entry; \<open>entitiesT\<close> is the \<^verbatim>\<open>Set\<close> of entity ids, kept as the list of
  its members in insertion order.
\<close>

record timelineEntry =
  dateT :: string
  entitiesT :: "string list"
  conversationsT :: "convId list"

text \<open>
  The input: a conversation of the export. \<open>mapping\<close> lists the nodes in the order in
  which \<^verbatim>\<open>for (const nodeId in mapping)\<close> visits them; a node without a message is
  \<open>None\<close>; \<open>parts\<close> is \<open>None\<close> when the message has no \<^verbatim>\<open>content.parts\<close>. A part is a
  string or something else (an asset pointer).
\<close>

datatype part = TextPart string | OtherPart

record msgNode =
  authorRole :: "string option"
  parts :: "part list option"

record conversation =
  idI :: "string option"
  conversation_id :: "string option"
  titleI :: "string option"
  create_time :: "double option"
  update_time :: "double option"
  mapping :: "msgNode option list"

text \<open>
  The values that cross the interface of \<^verbatim>\<open>processConversations\<close>: its third argument
  and the fields of a progress event. \<open>JFixed1 a b\<close> stands for the string
  \<^verbatim>\<open>(a / b * 100).toFixed(1)\<close>, \<open>JRange s e\<close> for an object \<^verbatim>\<open>{start: s, end: e}\<close>.
\<close>

datatype jsValue = JUndefined | JNull | JBool bool | JNum int | JFixed1 nat nat | JRange nat nat

fun truthy :: "jsValue \<Rightarrow> bool" where
  "truthy JUndefined = False"
| "truthy JNull = False"
| "truthy (JBool b) = b"
| "truthy (JNum n) = (n \<noteq> 0)"
| "truthy (JFixed1 a b) = True"
| "truthy (JRange s e) = True"

text \<open>A progress event is the object literal handed to the callback: its fields in order.\<close>

type_synonym progress = "(string \<times> jsValue) list"

text \<open>
  The processor. \<open>entities\<close>, \<open>conversationEntities\<close> and \<open>timeline\<close> are the three
  \<^verbatim>\<open>Map\<close>s, kept as association lists in insertion order. \<open>onProgress\<close> tells whether a
  callback is installed; \<open>events\<close> records the calls made to it. \<open>ticks\<close> counts the
  readings of the clock and of the random generator taken so far. The constructor sets
  \<^verbatim>\<open>batchSize\<close> to 500 and nothing assigns it again.
\<close>

record processor =
  processedCount :: nat
  totalConversations :: nat
  entities :: "(string \<times> entity) list"
  conversationEntities :: "(convId \<times> convData) list"
  timeline :: "(string \<times> timelineEntry) list"
  onProgress :: bool
  minOccurrences :: nat
  events :: "progress list"
  ticks :: nat

definition batchSize :: nat where
  "batchSize = 500"

definition newProcessor :: processor where
  "newProcessor =
     \<lparr>processedCount = 0, totalConversations = 0, entities = [], conversationEntities = [],
      timeline = [], onProgress = False, minOccurrences = 2, events = [], ticks = 0\<rparr>"

text \<open>
  What the run reads from outside: the \<open>k\<close>-th reading of \<^verbatim>\<open>Date.now()\<close>
  (milliseconds) and of \<^verbatim>\<open>Math.random()\<close>, the latter as the digits after the point
  that \<^verbatim>\<open>toString(36)\<close> prints for it. \<open>randomSuffix\<close> is
  \<^verbatim>\<open>Math.random().toString(36).substr(2, 9)\<close>: up to nine of these digits, each
  printed as one of \<^verbatim>\<open>0\<close> to \<^verbatim>\<open>9\<close> and \<^verbatim>\<open>a\<close> to \<^verbatim>\<open>z\<close>.
\<close>

record env =
  clock :: "nat \<Rightarrow> nat"
  random :: "nat \<Rightarrow> nat list"

definition base36 :: "nat \<Rightarrow> char" where
  "base36 d = ''0123456789abcdefghijklmnopqrstuvwxyz'' ! (d mod 36)"

definition randomSuffix :: "env \<Rightarrow> nat \<Rightarrow> string" where
  "randomSuffix ev k = map base36 (take 9 (random ev k))"

text \<open>
  The store: the object stores of the opened database that the processor and the search
  engine use, each as the list of its records in key order, which is the order in which
  \<^verbatim>\<open>getAll\<close> returns them. \<^verbatim>\<open>put\<close> replaces the record with the same key or
  inserts the new one at its place.
\<close>

record store =
  entitiesS :: "(string \<times> entity) list"
  conversationsS :: "(string \<times> convData) list"
  timelineS :: "(string \<times> timelineEntry) list"
  searchIndexS :: "(string \<times> string list) list"
  metadataS :: "(string \<times> int) list"


fun storePut :: "string \<Rightarrow> 'v \<Rightarrow> (string \<times> 'v) list \<Rightarrow> (string \<times> 'v) list" where
  "storePut k v [] = [(k, v)]"
| "storePut k v ((k', v') # rest) =
     (if k = k' then (k, v) # rest
      else if k < k' then (k, v) # (k', v') # rest
      else (k', v') # storePut k v rest)"

datatype error = RangeError | TypeError | DataError

text \<open>What \<^verbatim>\<open>processConversations\<close> returns.\<close>

record snapshot =
  entitiesR :: "entity list"
  conversationsR :: "(convId \<times> convData) list"
  timelineR :: "timelineEntry list"

subsection \<open>Dates\<close>

text \<open>
  \<^verbatim>\<open>new Date(timestamp * 1000).toISOString().split('T')[0]\<close>: the calendar day (UTC) of
  the timestamp. The product is a binary64 value; the constructor drops its fraction. A
  time value that is not finite or lies beyond 8.64e15 milliseconds is invalid and
  \<^verbatim>\<open>toISOString\<close> throws a RangeError. The year prints with four digits from 0 to 9999 and
  with a sign and six digits otherwise.
\<close>

definition civil :: "int \<Rightarrow> int \<times> nat \<times> nat" where
  "civil days =
     (let z = days + 719468;
          era = z div 146097;
          doe = z - era * 146097;
          yoe = (doe - doe div 1460 + doe div 36524 - doe div 146096) div 365;
          doy = doe - (365 * yoe + yoe div 4 - yoe div 100);
          mp = (5 * doy + 2) div 153;
          d = doy - (153 * mp + 2) div 5 + 1;
          m = (if mp < 10 then mp + 3 else mp - 9);
          y = yoe + era * 400 + (if m \<le> 2 then 1 else 0)
      in (y, nat m, nat d))"

definition isoYear :: "int \<Rightarrow> string" where
  "isoYear y =
     (if 0 \<le> y \<and> y \<le> 9999 then padStart 4 (decimal (nat y))
      else (if y < 0 then ''-'' else ''+'') @ padStart 6 (decimal (nat \<bar>y\<bar>)))"

definition toISODate :: "double \<Rightarrow> error + string" where
  "toISODate timestamp =
     (let ms = dmul timestamp (Num 1000)
      in if ms = NaN \<or> isInf ms \<or> \<bar>ratOf ms\<bar> > 8640000000000000 then Inl RangeError
         else (case civil (truncR (ratOf ms) div 86400000) of (y, m, d) \<Rightarrow>
                 Inr (isoYear y @ ''-'' @ padStart 2 (decimal m) @ ''-'' @ padStart 2 (decimal d))))"


section \<open>The processor\<close>

subsection \<open>Deduplication\<close>

text \<open>\<^verbatim>\<open>a || b\<close> on strings that may be missing: the empty string is falsy.\<close>

definition jsOrStr :: "string option \<Rightarrow> string option \<Rightarrow> string option" where
  "jsOrStr a b = (case a of Some s \<Rightarrow> if s \<noteq> [] then Some s else b | None \<Rightarrow> b)"

definition convIdOf :: "conversation \<Rightarrow> convId" where
  "convIdOf conv = jsOrStr (idI conv) (conversation_id conv)"

text \<open>\<^verbatim>\<open>name.toLowerCase().trim().replace(/[^\w\s]/g, '')\<close>.\<close>

definition normalizeEntityName :: "string \<Rightarrow> string" where
  "normalizeEntityName name = filter (\<lambda>c. isWord c \<or> isSpace c) (trim (toLowerCase name))"

text \<open>
  \<^verbatim>\<open>findExistingEntity\<close>: a first pass over the map for an entity of the type with the
  same key; then, for a key longer than 5, a second pass for one within distance 2.
  \<open>None\<close> is \<^verbatim>\<open>null\<close>.
\<close>

definition findExistingEntity :: "(string \<times> entity) list \<Rightarrow> string \<Rightarrow> entityType \<Rightarrow> string option" where
  "findExistingEntity ents key type =
     (case find (\<lambda>(i, e). typeE e = type \<and> normalizedKey e = key) ents of
        Some (i, e) \<Rightarrow> Some i
      | None \<Rightarrow>
          if length key > 5
          then (case find (\<lambda>(i, e). typeE e = type \<and> levenshteinDistance (normalizedKey e) key \<le> 2) ents of
                  Some (i, e) \<Rightarrow> Some i
                | None \<Rightarrow> None)
          else None)"

fun typeName :: "entityType \<Rightarrow> string" where
  "typeName Person = ''person''"
| "typeName Project = ''project''"
| "typeName Knowledge = ''knowledge''"
| "typeName Question = ''question''"
| "typeName Thought = ''thought''"
| "typeName Pattern = ''pattern''"

text \<open>
  The id \<^verbatim>\<open>`${type}_${key}_${Date.now()}_${Math.random().toString(36).substr(2, 9)}`\<close>
  and the object literal of a new entity;
  \<^verbatim>\<open>description: extracted.description || extracted.context || ''\<close>.
\<close>

definition newEntityId :: "processor \<Rightarrow> env \<Rightarrow> candidate \<Rightarrow> string \<Rightarrow> string" where
  "newEntityId p ev extracted key =
     typeName (typeC extracted) @ ''_'' @ key @ ''_'' @ decimal (clock ev (ticks p))
       @ ''_'' @ randomSuffix ev (ticks p)"

definition newEntity :: "string \<Rightarrow> candidate \<Rightarrow> string \<Rightarrow> double \<Rightarrow> entity" where
  "newEntity entityId extracted key timestamp =
     \<lparr>idE = entityId, typeE = typeC extracted, nameE = nameC extracted,
      descriptionE = (case descriptionC extracted of
                        Some d \<Rightarrow> if d \<noteq> [] then d else contextC extracted
                      | None \<Rightarrow> contextC extracted),
      firstSeen = timestamp, lastSeen = timestamp, occurrences = 0,
      conversationsE = [], links = [],
      normalizedKey = key, contextM = contextC extracted\<rparr>"

text \<open>
  \<^verbatim>\<open>getOrCreateEntity\<close>. The test \<^verbatim>\<open>if (existingId)\<close> is a truthiness test: an id
  that is the empty string counts as not found.
\<close>

definition getOrCreateEntity :: "processor \<Rightarrow> env \<Rightarrow> candidate \<Rightarrow> convId \<Rightarrow> double \<Rightarrow> string \<times> processor" where
  "getOrCreateEntity p ev extracted convId timestamp =
     (let key = normalizeEntityName (nameC extracted);
          existingId = findExistingEntity (entities p) key (typeC extracted);
          entityId = newEntityId p ev extracted key;
          created = (entityId,
                     p\<lparr>entities := AList.update entityId (newEntity entityId extracted key timestamp) (entities p),
                       ticks := Suc (ticks p)\<rparr>)
      in case existingId of
           Some i \<Rightarrow> if i \<noteq> [] then (i, p) else created
         | None \<Rightarrow> created)"

subsection \<open>One conversation\<close>

definition extractMessages :: "conversation \<Rightarrow> message list" where
  "extractMessages conv =
     concat (map (\<lambda>node.
        case node of
          None \<Rightarrow> []
        | Some m \<Rightarrow>
            (case parts m of
               None \<Rightarrow> []
             | Some ps \<Rightarrow>
                 (let r = (case authorRole m of
                             Some a \<Rightarrow> if a \<noteq> [] then a else ''unknown''
                           | None \<Rightarrow> ''unknown'')
                  in concat (map (\<lambda>pt.
                       case pt of
                         TextPart s \<Rightarrow> if length (trim s) > 0 then [\<lparr>role = r, content = s\<rparr>] else []
                       | OtherPart \<Rightarrow> [])
                     ps))))
        (mapping conv))"

text \<open>
  The body of the loop over the extracted candidates: it resolves the candidate, pushes
  the id to the conversation's list and updates the entity found under that id. A missing
  entity would make \<^verbatim>\<open>entity.conversations\<close> throw a TypeError.
\<close>

definition resolveStep ::
  "env \<Rightarrow> convId \<Rightarrow> double \<Rightarrow> processor \<times> string list \<Rightarrow> candidate \<Rightarrow> error + processor \<times> string list" where
  "resolveStep ev convId timestamp st extracted =
     (case st of (p, ids) \<Rightarrow>
      (case getOrCreateEntity p ev extracted convId timestamp of (entityId, p1) \<Rightarrow>
        (case map_of (entities p1) entityId of
           None \<Rightarrow> Inl TypeError
         | Some entity \<Rightarrow>
             (let entity1 = (if convId \<notin> set (conversationsE entity)
                             then entity\<lparr>conversationsE := conversationsE entity @ [convId]\<rparr>
                             else entity);
                  entity2 = entity1\<lparr>lastSeen := dmax (lastSeen entity1) timestamp,
                                    occurrences := Suc (occurrences entity1)\<rparr>
              in Inr (p1\<lparr>entities := AList.update entityId entity2 (entities p1)\<rparr>, ids @ [entityId])))))"

text \<open>A loop whose body may throw: the first error ends it.\<close>

fun foldE :: "('s \<Rightarrow> 'a \<Rightarrow> error + 's) \<Rightarrow> 's \<Rightarrow> 'a list \<Rightarrow> error + 's" where
  "foldE f s [] = Inr s"
| "foldE f s (x # xs) = (case f s x of Inl e \<Rightarrow> Inl e | Inr s' \<Rightarrow> foldE f s' xs)"

definition setAdd :: "string list \<Rightarrow> string \<Rightarrow> string list" where
  "setAdd s x = (if x \<in> set s then s else s @ [x])"

definition updateTimeline ::
  "(string \<times> timelineEntry) list \<Rightarrow> string \<Rightarrow> string list \<Rightarrow> convId \<Rightarrow> (string \<times> timelineEntry) list" where
  "updateTimeline tline date entityIds convId =
     (let entry = (case map_of tline date of
                     None \<Rightarrow> \<lparr>dateT = date, entitiesT = [], conversationsT = []\<rparr>
                   | Some e \<Rightarrow> e)
      in AList.update date
           (entry\<lparr>entitiesT := foldl setAdd (entitiesT entry) entityIds,
                  conversationsT := conversationsT entry @ [convId]\<rparr>) tline)"

text \<open>
  \<^verbatim>\<open>processConversation\<close>. The timestamp is
  \<^verbatim>\<open>create_time || update_time || Date.now() / 1000\<close>, where a zero, NaN and a
  missing field are falsy and the clock is read only when both fields are.
\<close>

definition processConversation :: "env \<Rightarrow> processor \<Rightarrow> conversation \<Rightarrow> error + processor" where
  "processConversation ev p conv =
     (let convId = convIdOf conv;
          title = (case titleI conv of Some t \<Rightarrow> if t \<noteq> [] then t else ''Untitled'' | None \<Rightarrow> ''Untitled'');
          fromRecord = (case create_time conv of
                          Some t \<Rightarrow> if dtruthy t then Some t else
                            (case update_time conv of Some u \<Rightarrow> if dtruthy u then Some u else None | None \<Rightarrow> None)
                        | None \<Rightarrow>
                            (case update_time conv of Some u \<Rightarrow> if dtruthy u then Some u else None | None \<Rightarrow> None));
          timestamp = (case fromRecord of
                         Some t \<Rightarrow> t
                       | None \<Rightarrow> ddiv (lit (of_nat (clock ev (ticks p)))) (Num 1000));
          p0 = (case fromRecord of Some t \<Rightarrow> p | None \<Rightarrow> p\<lparr>ticks := Suc (ticks p)\<rparr>)
      in case toISODate timestamp of
           Inl e \<Rightarrow> Inl e
         | Inr date \<Rightarrow>
             (let messages = extractMessages conv;
                  fullText = joinWith [CHR 0x0A, CHR 0x0A] (map content messages);
                  extractedEntities = extractEntities fullText messages
              in case foldE (resolveStep ev convId timestamp) (p0, []) extractedEntities of
                   Inl e \<Rightarrow> Inl e
                 | Inr (p1, ids) \<Rightarrow>
                     (let convD = \<lparr>idC = convId, titleC = title, timestampC = timestamp,
                                   dateC = date, entitiesC = ids\<rparr>
                      in Inr (p1\<lparr>conversationEntities := AList.update convId convD (conversationEntities p1),
                                 timeline := updateTimeline (timeline p1) date ids convId\<rparr>))))"

definition processBatch :: "env \<Rightarrow> processor \<Rightarrow> conversation list \<Rightarrow> error + processor" where
  "processBatch ev p batch = foldE (processConversation ev) p batch"

subsection \<open>The sparse filter, the links and the timeline\<close>

definition filterSparseEntities :: "processor \<Rightarrow> processor" where
  "filterSparseEntities p =
     (let toDelete = map fst (filter (\<lambda>(i, e). occurrences e < minOccurrences p) (entities p));
          convs = foldl (\<lambda>cs d. map (\<lambda>(k, c). (k, c\<lparr>entitiesC := filter (\<lambda>i. i \<noteq> d) (entitiesC c)\<rparr>)) cs)
                    (conversationEntities p) toDelete;
          ents = foldl (\<lambda>m d. AList.delete d m) (entities p) toDelete;
          ents' = map (\<lambda>(k, e). (k, e\<lparr>links := filter (\<lambda>l. map_of ents l \<noteq> None) (links e)\<rparr>)) ents
      in p\<lparr>entities := ents', conversationEntities := convs\<rparr>)"

text \<open>The pairs \<open>(entities[i], entities[j])\<close> with \<open>i < j\<close>, in the order of the two loops.\<close>

definition pairsOf :: "string list \<Rightarrow> (string \<times> string) list" where
  "pairsOf es = concat (map (\<lambda>i. map (\<lambda>j. (es ! i, es ! j)) [Suc i..<length es]) [0..<length es])"

text \<open>
  The body of the inner loop of \<^verbatim>\<open>computeRelationships\<close>. Both entities are objects of
  the map, so the second test reads the links after the first push (the two ids may be
  the same entity).
\<close>

definition linkStep :: "(string \<times> entity) list \<Rightarrow> string \<times> string \<Rightarrow> (string \<times> entity) list" where
  "linkStep m pr =
     (case pr of (a, b) \<Rightarrow>
      (case (map_of m a, map_of m b) of
         (Some entity1, Some entity2) \<Rightarrow>
           (let m1 = (if b \<notin> set (links entity1)
                      then AList.update a (entity1\<lparr>links := links entity1 @ [b]\<rparr>) m else m)
            in case map_of m1 b of
                 Some entity2' \<Rightarrow>
                   if a \<notin> set (links entity2')
                   then AList.update b (entity2'\<lparr>links := links entity2' @ [a]\<rparr>) m1 else m1
               | None \<Rightarrow> m1)
       | _ \<Rightarrow> m))"

definition computeRelationships :: "processor \<Rightarrow> processor" where
  "computeRelationships p =
     p\<lparr>entities := foldl (\<lambda>m kc. foldl linkStep m (pairsOf (entitiesC (snd kc))))
                      (entities p) (conversationEntities p)\<rparr>"

text \<open>
  \<^verbatim>\<open>buildTimeline\<close>: one record per date, sorted by
  \<^verbatim>\<open>a.date.localeCompare(b.date)\<close> (a stable sort). A date consists of digits and of
  the signs \<^verbatim>\<open>-\<close> and \<^verbatim>\<open>+\<close>; the collation compares two dates character by
  character and puts \<^verbatim>\<open>-\<close> before \<^verbatim>\<open>+\<close> and both before the digits.
\<close>

definition collationRank :: "char \<Rightarrow> nat" where
  "collationRank c = (if c = CHR ''-'' then 0 else if c = CHR ''+'' then 1 else 2 + code c)"

definition buildTimeline :: "processor \<Rightarrow> timelineEntry list" where
  "buildTimeline p =
     sort_key (\<lambda>t. map collationRank (dateT t))
       (map (\<lambda>(d, e). \<lparr>dateT = d, entitiesT = entitiesT e, conversationsT = conversationsT e\<rparr>) (timeline p))"

subsection \<open>Saving\<close>

definition addToSearchIndex :: "(string \<times> string list) list \<Rightarrow> string \<Rightarrow> string \<Rightarrow> (string \<times> string list) list" where
  "addToSearchIndex idx word entityId =
     (case map_of idx word of
        Some ids \<Rightarrow> storePut word (if entityId \<in> set ids then ids else ids @ [entityId]) idx
      | None \<Rightarrow> storePut word [entityId] idx)"

definition indexWords :: "entity \<Rightarrow> string list" where
  "indexWords e = filter (\<lambda>w. length w > 2) (splitWs (toLowerCase (nameE e @ '' '' @ descriptionE e)))"

definition buildSearchIndex :: "processor \<Rightarrow> store \<Rightarrow> store" where
  "buildSearchIndex p st =
     st\<lparr>searchIndexS := foldl (\<lambda>idx ke. foldl (\<lambda>idx' w. addToSearchIndex idx' w (idE (snd ke))) idx (indexWords (snd ke)))
                          (searchIndexS st) (entities p)\<rparr>"

text \<open>
  \<^verbatim>\<open>saveConversation\<close> puts a record into a store whose key path is \<^verbatim>\<open>id\<close>: a record
  without an id makes \<^verbatim>\<open>put\<close> throw a DataError.
\<close>

definition saveConversation :: "store \<Rightarrow> convData \<Rightarrow> error + store" where
  "saveConversation st c =
     (case idC c of
        None \<Rightarrow> Inl DataError
      | Some k \<Rightarrow> Inr (st\<lparr>conversationsS := storePut k c (conversationsS st)\<rparr>))"

definition saveToDatabase :: "processor \<Rightarrow> store \<Rightarrow> error + processor \<times> store" where
  "saveToDatabase p st =
     (let p1 = computeRelationships p;
          st1 = foldl (\<lambda>s ke. s\<lparr>entitiesS := storePut (idE (snd ke)) (snd ke) (entitiesS s)\<rparr>) st (entities p1)
      in case foldE saveConversation st1 (map snd (conversationEntities p1)) of
           Inl e \<Rightarrow> Inl e
         | Inr st2 \<Rightarrow>
             (let st3 = foldl (\<lambda>s t. s\<lparr>timelineS := storePut (dateT t) t (timelineS s)\<rparr>) st2 (buildTimeline p1)
              in Inr (p1, buildSearchIndex p1 st3)))"

definition saveMetadata :: "string \<Rightarrow> int \<Rightarrow> store \<Rightarrow> store" where
  "saveMetadata k v st = st\<lparr>metadataS := storePut k v (metadataS st)\<rparr>"

subsection \<open>The run\<close>

definition loadExistingEntities :: "processor \<Rightarrow> store \<Rightarrow> processor" where
  "loadExistingEntities p st =
     p\<lparr>entities := foldl (\<lambda>m e. AList.update (idE e) e m) (entities p) (map snd (entitiesS st)),
       conversationEntities := foldl (\<lambda>m c. AList.update (idC c) c m) (conversationEntities p)
                                 (map snd (conversationsS st))\<rparr>"

definition filterNewConversations :: "store \<Rightarrow> conversation list \<Rightarrow> conversation list" where
  "filterNewConversations st convs =
     filter (\<lambda>conv. convIdOf conv \<notin> set (map (\<lambda>kc. idC (snd kc)) (conversationsS st))) convs"

definition emit :: "processor \<Rightarrow> progress \<Rightarrow> processor" where
  "emit p e = (if onProgress p then p\<lparr>events := events p @ [e]\<rparr> else p)"

definition snapshotOf :: "processor \<Rightarrow> snapshot" where
  "snapshotOf p =
     \<lparr>entitiesR = map snd (entities p), conversationsR = conversationEntities p,
      timelineR = buildTimeline p\<rparr>"

text \<open>
  The loop \<^verbatim>\<open>for (let i = 0; i < n; i += this.batchSize)\<close> with its progress event
  after each batch (the pause between two batches has no effect on the state).
\<close>

function batchLoop :: "env \<Rightarrow> jsValue \<Rightarrow> conversation list \<Rightarrow> nat \<Rightarrow> processor \<Rightarrow> error + processor" where
  "batchLoop ev resumeMode convs i p =
     (if i < length convs then
        (case processBatch ev p (take batchSize (drop i convs)) of
           Inl e \<Rightarrow> Inl e
         | Inr p1 \<Rightarrow>
             (let p2 = p1\<lparr>processedCount := min (i + batchSize) (length convs)\<rparr>;
                  p3 = emit p2
                         [(''processed'', JNum (int (processedCount p2))),
                          (''total'', JNum (int (totalConversations p2))),
                          (''percentage'', JFixed1 (processedCount p2) (totalConversations p2)),
                          (''entitiesFound'', JNum (int (length (entities p2)))),
                          (''recentBatch'', JNum (int (length (take batchSize (drop i convs))))),
                          (''resumeMode'', resumeMode)]
              in batchLoop ev resumeMode convs (i + batchSize) p3))
      else Inr p)"
  by pat_completeness auto
termination
  by (relation "measure (\<lambda>(ev, resumeMode, convs, i, p). length convs - i)") (auto simp: batchSize_def)

declare batchLoop.simps [simp del]

text \<open>
  \<^verbatim>\<open>processConversations(conversations, onProgress, resumeMode = false)\<close>. \<open>cb\<close> tells
  whether a callback is passed; \<open>arg3\<close> is the third argument as passed, which the
  default replaces by \<^verbatim>\<open>false\<close> when it is \<^verbatim>\<open>undefined\<close>.
\<close>

definition processConversations ::
  "processor \<Rightarrow> store \<Rightarrow> env \<Rightarrow> conversation list \<Rightarrow> bool \<Rightarrow> jsValue \<Rightarrow> error + snapshot \<times> processor \<times> store" where
  "processConversations p st ev conversations cb arg3 =
     (let resumeMode = (if arg3 = JUndefined then JBool False else arg3);
          p1 = p\<lparr>onProgress := cb\<rparr>;
          p2 = (if truthy resumeMode then loadExistingEntities p1 st else p1);
          conversationsToProcess = filterNewConversations st conversations
      in if length conversationsToProcess = 0 then
           (let p3 = emit p2
                       [(''processed'', JNum (int (length conversations))),
                        (''total'', JNum (int (length conversations))),
                        (''percentage'', JNum 100),
                        (''entitiesFound'', JNum (int (length (entities p2)))),
                        (''recentBatch'', JNum 0),
                        (''alreadyProcessed'', JBool True)]
            in Inr (snapshotOf p3, p3, st))
         else
           (case batchLoop ev resumeMode conversationsToProcess 0
                   (p2\<lparr>totalConversations := length conversationsToProcess, processedCount := 0\<rparr>) of
              Inl e \<Rightarrow> Inl e
            | Inr p4 \<Rightarrow>
                (case saveToDatabase (filterSparseEntities p4) st of
                   Inl e \<Rightarrow> Inl e
                 | Inr (p5, st1) \<Rightarrow>
                     (let st2 = saveMetadata ''lastProcessedTime'' (int (clock ev (ticks p5))) st1;
                          st3 = saveMetadata ''totalConversationsProcessed'' (int (length conversations)) st2;
                          p6 = p5\<lparr>ticks := Suc (ticks p5)\<rparr>
                      in Inr (snapshotOf p6, p6, st3)))))"

text \<open>
  The call of the application's range mode (search-engine.js, lines 1196 to 1221):
  \<^verbatim>\<open>processConversations(conversations, callback, maxToProcess, customRange)\<close> with
  \<^verbatim>\<open>maxToProcess = null\<close>. The function declares three parameters, so the fourth
  argument is dropped.
\<close>

definition processConversationsRangeCall ::
  "processor \<Rightarrow> store \<Rightarrow> env \<Rightarrow> conversation list \<Rightarrow> nat \<times> nat \<Rightarrow> error + snapshot \<times> processor \<times> store" where
  "processConversationsRangeCall p st ev conversations customRange =
     processConversations p st ev conversations True JNull"


subsection \<open>What a candidate matches\<close>

text \<open>
  The entities of a type with a given key, and those within edit distance 2 of it, in
  the order of the map.
\<close>

definition exactMatches :: "(string \<times> entity) list \<Rightarrow> string \<Rightarrow> entityType \<Rightarrow> (string \<times> entity) list" where
  "exactMatches ents key ty = filter (\<lambda>(i, e). typeE e = ty \<and> normalizedKey e = key) ents"

definition fuzzyMatches :: "(string \<times> entity) list \<Rightarrow> string \<Rightarrow> entityType \<Rightarrow> (string \<times> entity) list" where
  "fuzzyMatches ents key ty = filter (\<lambda>(i, e). typeE e = ty \<and> lev (normalizedKey e) key \<le> 2) ents"

text \<open>
  An id of the entity map is built by the template of \<^verbatim>\<open>getOrCreateEntity\<close>: the type,
  the normalized key, the time and the random suffix, joined by underscores; neither of
  the last two fields holds an underscore.
\<close>

definition templated :: "string \<times> entity \<Rightarrow> bool" where
  "templated ie =
     (let pre = typeName (typeE (snd ie)) @ ''_'' @ normalizedKey (snd ie) @ ''_''
      in take (length pre) (fst ie) = pre
         \<and> length (filter (\<lambda>c. c = CHR ''_'') (drop (length pre) (fst ie))) = 1)"

definition idsTemplated :: "(string \<times> entity) list \<Rightarrow> bool" where
  "idsTemplated m = list_all templated m"

text \<open>The number of underscores of a string.\<close>

definition underscores :: "string \<Rightarrow> nat" where
  "underscores s = length (filter (\<lambda>c. c = CHR ''_'') s)"

subsection \<open>Invariants of a run\<close>

text \<open>
  What \<^verbatim>\<open>getOrCreateEntity\<close> returns when it creates an entity, and what the loop body of
  \<^verbatim>\<open>processConversation\<close> does to the entity it found.
\<close>

definition createdBy :: "processor \<Rightarrow> env \<Rightarrow> candidate \<Rightarrow> double \<Rightarrow> string \<times> processor" where
  "createdBy p ev x ts =
     (newEntityId p ev x (normalizeEntityName (nameC x)),
      p\<lparr>entities := AList.update (newEntityId p ev x (normalizeEntityName (nameC x)))
                      (newEntity (newEntityId p ev x (normalizeEntityName (nameC x))) x
                          (normalizeEntityName (nameC x)) ts) (entities p),
        ticks := Suc (ticks p)\<rparr>)"

definition touched :: "convId \<Rightarrow> double \<Rightarrow> entity \<Rightarrow> entity" where
  "touched cid ts e =
     e\<lparr>conversationsE := (if cid \<notin> set (conversationsE e) then conversationsE e @ [cid] else conversationsE e),
       lastSeen := dmax (lastSeen e) ts, occurrences := Suc (occurrences e)\<rparr>"

text \<open>No entity has a link.\<close>

definition noLinks :: "processor \<Rightarrow> bool" where
  "noLinks p = list_all (\<lambda>ke. links (snd ke) = []) (entities p)"

text \<open>
  \<open>stepFrame p p'\<close>: what one resolution step leaves as it is.
\<close>

definition stepFrame :: "processor \<Rightarrow> processor \<Rightarrow> bool" where
  "stepFrame p p' =
     (conversationEntities p' = conversationEntities p \<and> timeline p' = timeline p
      \<and> minOccurrences p' = minOccurrences p \<and> onProgress p' = onProgress p
      \<and> events p' = events p \<and> processedCount p' = processedCount p
      \<and> totalConversations p' = totalConversations p
      \<and> fst ` set (entities p) \<subseteq> fst ` set (entities p')
      \<and> (noLinks p \<longrightarrow> noLinks p'))"

text \<open>
  \<open>keyedAt p k\<close>: the conversation map holds under the key \<open>k\<close> a record whose id is \<open>k\<close>.
  \<open>runFrame cs p p'\<close>: what holds between the processor before and after the
  conversations \<open>cs\<close> were processed.
\<close>

definition keyedAt :: "processor \<Rightarrow> convId \<Rightarrow> bool" where
  "keyedAt p k = list_ex (\<lambda>kc. fst kc = k \<and> idC (snd kc) = k) (conversationEntities p)"

definition runFrame :: "conversation list \<Rightarrow> processor \<Rightarrow> processor \<Rightarrow> bool" where
  "runFrame cs p p' =
     (minOccurrences p' = minOccurrences p \<and> onProgress p' = onProgress p
      \<and> (noLinks p \<longrightarrow> noLinks p')
      \<and> (\<forall>k. keyedAt p k \<longrightarrow> keyedAt p' k)
      \<and> list_all (\<lambda>c. keyedAt p' (convIdOf c)) cs)"

text \<open>
  The conversation store has the key path \<^verbatim>\<open>id\<close>: the key of a record is its id.
\<close>

definition convStoreKeyed :: "store \<Rightarrow> bool" where
  "convStoreKeyed st = list_all (\<lambda>kc. idC (snd kc) = Some (fst kc)) (conversationsS st)"


text \<open>
  The ids of the conversations that the store holds, as \<^verbatim>\<open>filterNewConversations\<close>
  collects them.
\<close>

definition storedIds :: "store \<Rightarrow> convId list" where
  "storedIds st = map (\<lambda>kc. idC (snd kc)) (conversationsS st)"

subsection \<open>The link relation\<close>

text \<open>
  The links of the entity stored under an id, and the symmetry of the relation on the
  entities of a map: \<^verbatim>\<open>A.links.includes(B.id)\<close> exactly when
  \<^verbatim>\<open>B.links.includes(A.id)\<close>, for any two entities of the map.
\<close>

definition linkSet :: "(string \<times> entity) list \<Rightarrow> string \<Rightarrow> string list" where
  "linkSet m x = (case map_of m x of Some e \<Rightarrow> links e | None \<Rightarrow> [])"

definition linksSymmetric :: "(string \<times> entity) list \<Rightarrow> bool" where
  "linksSymmetric m =
     list_all (\<lambda>a. list_all (\<lambda>b. (b \<in> set (linkSet m a)) = (a \<in> set (linkSet m b))) (map fst m)) (map fst m)"

text \<open>Every link leads to an entity of the map.\<close>

definition linksClosed :: "(string \<times> entity) list \<Rightarrow> bool" where
  "linksClosed m = list_all (\<lambda>ke. list_all (\<lambda>l. map_of m l \<noteq> None) (links (snd ke))) m"

subsection \<open>The sparse filter\<close>

text \<open>
  The ids that \<^verbatim>\<open>filterSparseEntities\<close> removes from the entity map, and the ids that a
  processor references: in the entity lists of its conversations, in the links of its
  entities and in the entity sets of its timeline.
\<close>

definition removedIds :: "processor \<Rightarrow> string list" where
  "removedIds p =
     filter (\<lambda>i. map_of (entities (filterSparseEntities p)) i = None) (map fst (entities p))"

definition conversationRefs :: "processor \<Rightarrow> string list" where
  "conversationRefs p = concat (map (\<lambda>kc. entitiesC (snd kc)) (conversationEntities p))"

definition linkRefs :: "processor \<Rightarrow> string list" where
  "linkRefs p = concat (map (\<lambda>ke. links (snd ke)) (entities p))"

definition timelineRefs :: "processor \<Rightarrow> string list" where
  "timelineRefs p = concat (map (\<lambda>kt. entitiesT (snd kt)) (timeline p))"

text \<open>
  The ids that the filter collects in \<^verbatim>\<open>toDelete\<close>, and the entries of the entity map
  that are left when they are deleted.
\<close>

definition sparseIds :: "processor \<Rightarrow> string list" where
  "sparseIds p = map fst (filter (\<lambda>(i, e). occurrences e < minOccurrences p) (entities p))"

definition keptEntities :: "processor \<Rightarrow> (string \<times> entity) list" where
  "keptEntities p = filter (\<lambda>ke. fst ke \<notin> set (sparseIds p)) (entities p)"

section \<open>The search engine\<close>



















section \<open>The graph renderer: viewport culling\<close>

text \<open>
  The fields of a node that the culling reads. Coordinates are numbers. A node
  object is identified by its position in \<^verbatim>\<open>this.nodes\<close>: an edge holds the positions
  of its \<^verbatim>\<open>source\<close> and \<^verbatim>\<open>target\<close> objects, and \<^verbatim>\<open>visibleNodes\<close> the positions of
  the objects it keeps.
\<close>

record node =
  idN :: string
  typeN :: entityType
  xN :: double
  yN :: double
  visible :: bool

record viewport =
  offsetX :: double
  offsetY :: double
  scale :: double

record renderer =
  width :: double
  height :: double
  nodes :: "node list"
  edges :: "(nat \<times> nat) list"
  view :: viewport
  visibleNodes :: "nat list"
  visibleEdges :: "(nat \<times> nat) list"

text \<open>
  The bounds that \<^verbatim>\<open>updateVisibleElements\<close> computes: the canvas in world coordinates,
  widened by the margin.
\<close>

definition margin :: double where
  "margin = Num 100"

definition viewLeft :: "renderer \<Rightarrow> double" where
  "viewLeft r = dsub (ddiv (dneg (offsetX (view r))) (scale (view r))) margin"

definition viewRight :: "renderer \<Rightarrow> double" where
  "viewRight r = dadd (ddiv (dsub (width r) (offsetX (view r))) (scale (view r))) margin"

definition viewTop :: "renderer \<Rightarrow> double" where
  "viewTop r = dsub (ddiv (dneg (offsetY (view r))) (scale (view r))) margin"

definition viewBottom :: "renderer \<Rightarrow> double" where
  "viewBottom r = dadd (ddiv (dsub (height r) (offsetY (view r))) (scale (view r))) margin"

definition inView :: "renderer \<Rightarrow> node \<Rightarrow> bool" where
  "inView r n = (dle (viewLeft r) (xN n) \<and> dle (xN n) (viewRight r)
                 \<and> dle (viewTop r) (yN n) \<and> dle (yN n) (viewBottom r))"

definition updateVisibleElements :: "renderer \<Rightarrow> renderer" where
  "updateVisibleElements r =
     (let vis = filter (\<lambda>i. visible (nodes r ! i) \<and> inView r (nodes r ! i)) [0..<length (nodes r)];
          visibleNodeIds = set (map (\<lambda>i. idN (nodes r ! i)) vis)
      in r\<lparr>visibleNodes := vis,
           visibleEdges := filter (\<lambda>e. idN (nodes r ! fst e) \<in> visibleNodeIds
                                      \<and> idN (nodes r ! snd e) \<in> visibleNodeIds) (edges r)\<rparr>)"

definition filterByType :: "entityType list \<Rightarrow> renderer \<Rightarrow> renderer" where
  "filterByType ts r =
     r\<lparr>nodes := map (\<lambda>n. n\<lparr>visible := (length ts = 0 \<or> typeN n \<in> set ts)\<rparr>) (nodes r)\<rparr>"

text \<open>
  What \<^verbatim>\<open>loadData\<close> establishes and nothing else changes: the edges join nodes of the
  list, and no two nodes have the same id (the entities come from a store keyed by id).
\<close>

definition wellFormed :: "renderer \<Rightarrow> bool" where
  "wellFormed r =
     (distinct (map idN (nodes r))
      \<and> list_all (\<lambda>e. fst e < length (nodes r) \<and> snd e < length (nodes r)) (edges r))"


section \<open>Concrete inputs\<close>

text \<open>
  A renderer that is panned and zoomed, with four nodes: one well inside the view, one
  on its right bound (\<^verbatim>\<open>(800 - 30) / 3 + 100\<close> is the number
  \<^verbatim>\<open>356.6666666666667\<close>), one far to the right and one that is hidden.
\<close>

definition exampleRenderer :: renderer where
  "exampleRenderer =
     \<lparr>width = Num 800, height = Num 600,
      nodes = [\<lparr>idN = ''a'', typeN = Person, xN = Num 10, yN = Num 10, visible = True\<rparr>,
               \<lparr>idN = ''b'', typeN = Project, xN = lit (3566666666666667 / 10000000000000),
                yN = Num 10, visible = True\<rparr>,
               \<lparr>idN = ''c'', typeN = Person, xN = Num 2000, yN = Num 10, visible = True\<rparr>,
               \<lparr>idN = ''d'', typeN = Project, xN = Num 20, yN = Num 30, visible = False\<rparr>],
      edges = [(0, 1), (0, 2), (1, 3)],
      view = \<lparr>offsetX = Num 30, offsetY = Num (- 20), scale = Num 3\<rparr>,
      visibleNodes = [], visibleEdges = []\<rparr>"

text \<open>A clock and a random generator, and a processor that already holds one person.\<close>

definition exampleEnv :: env where
  "exampleEnv = \<lparr>clock = (\<lambda>k. k), random = (\<lambda>k. [27])\<rparr>"

definition johnSmith :: entity where
  "johnSmith =
     \<lparr>idE = ''person_john smith_0_r'', typeE = Person, nameE = ''John Smith'',
      descriptionE = ''John Smith'', firstSeen = Num 100, lastSeen = Num 100, occurrences = 1,
      conversationsE = [Some ''c1''], links = [], normalizedKey = ''john smith'',
      contextM = ''John Smith''\<rparr>"

definition processorWithJohn :: processor where
  "processorWithJohn = newProcessor\<lparr>entities := [(''person_john smith_0_r'', johnSmith)]\<rparr>"

definition personCandidate :: "string \<Rightarrow> candidate" where
  "personCandidate name = \<lparr>typeC = Person, nameC = name, descriptionC = None, contextC = name\<rparr>"




section \<open>Correctness of the Levenshtein matrix\<close>

lemma lev_Nil2: "lev xs [] = length xs"
  by (cases xs) simp_all

lemma nat_eq_by_le: "(\<And>z::nat. z \<le> a \<longleftrightarrow> z \<le> b) \<Longrightarrow> a = b"
  by (meson order_antisym order_refl)

lemma min9:
  fixes p1 :: nat
  shows "min (min (min (min (p1+1) (p2+1)) (p3+c) + 1) (min (min (q1+1) (q2+1)) (q3+c) + 1)) (min (min (r1+1) (r2+1)) (r3+c) + d)
   = min (min (min (min (p1+1) (q1+1)) (r1+d) + 1) (min (min (p2+1) (q2+1)) (r2 + d) + 1)) (min (min (p3+1)(q3+1)) (r3+d) + c)"
proof (rule nat_eq_by_le)
  fix z :: nat
  show "z \<le> min (min (min (min (p1+1) (p2+1)) (p3+c) + 1) (min (min (q1+1) (q2+1)) (q3+c) + 1)) (min (min (r1+1) (r2+1)) (r3+c) + d)
   \<longleftrightarrow> z \<le> min (min (min (min (p1+1) (q1+1)) (r1+d) + 1) (min (min (p2+1) (q2+1)) (r2 + d) + 1)) (min (min (p3+1)(q3+1)) (r3+d) + c)"
    unfolding min_add_distrib_left min.bounded_iff
    by (simp only: add.assoc add.commute add.left_commute) blast
qed

lemma min_base:
  fixes L :: nat
  shows "min (min (L + 3) (min (min (L + 2) (t + 1)) (L + c) + 1)) (L + 1 + d)
       = min (min (L + 3) (min (min (L + 2) (t + 1)) (L + d) + 1)) (L + 1 + c)"
proof (rule nat_eq_by_le)
  fix z :: nat
  show "z \<le> min (min (L + 3) (min (min (L + 2) (t + 1)) (L + c) + 1)) (L + 1 + d)
    \<longleftrightarrow> z \<le> min (min (L + 3) (min (min (L + 2) (t + 1)) (L + d) + 1)) (L + 1 + c)"
    unfolding min_add_distrib_left min.bounded_iff
    by (simp only: add.assoc add.commute add.left_commute) blast
qed

lemma lev_snoc_Nil1:
  "lev [x] (ys @ [y]) =
     min (min (length ys + 2) (lev [x] ys + 1)) (length ys + (if x = y then 0 else 1))"
proof (induction ys)
  case Nil
  show ?case by simp
next
  case (Cons b ys)
  have "lev [x] ((b # ys) @ [y]) =
      min (min (length ys + 3) (lev [x] (ys @ [y]) + 1)) (length ys + 1 + (if x = b then 0 else 1))"
    by simp
  also have "\<dots> = min (min (length ys + 3)
       (min (min (length ys + 2) (lev [x] ys + 1)) (length ys + (if x = y then 0 else 1)) + 1))
       (length ys + 1 + (if x = b then 0 else 1))"
    by (simp only: Cons)
  also have "\<dots> = min (min (length ys + 3)
       (min (min (length ys + 2) (lev [x] ys + 1)) (length ys + (if x = b then 0 else 1)) + 1))
       (length ys + 1 + (if x = y then 0 else 1))"
    by (rule min_base)
  also have "\<dots> = min (min (length (b # ys) + 2) (lev [x] (b # ys) + 1))
       (length (b # ys) + (if x = y then 0 else 1))"
    by simp
  finally show ?case .
qed

lemma lev_snoc_Nil2:
  "lev (xs @ [x]) [y] =
     min (min (lev xs [y] + 1) (length xs + 2)) (length xs + (if x = y then 0 else 1))"
proof (induction xs)
  case Nil
  show ?case by simp
next
  case (Cons a xs)
  have "lev ((a # xs) @ [x]) [y] =
      min (min (lev (xs @ [x]) [y] + 1) (length xs + 3)) (length xs + 1 + (if a = y then 0 else 1))"
    by (simp add: lev_Nil2)
  also have "\<dots> = min (min (length xs + 3)
       (min (min (length xs + 2) (lev xs [y] + 1)) (length xs + (if x = y then 0 else 1)) + 1))
       (length xs + 1 + (if a = y then 0 else 1))"
    by (simp only: Cons min.commute)
  also have "\<dots> = min (min (length xs + 3)
       (min (min (length xs + 2) (lev xs [y] + 1)) (length xs + (if a = y then 0 else 1)) + 1))
       (length xs + 1 + (if x = y then 0 else 1))"
    by (rule min_base)
  also have "\<dots> = min (min (lev (a # xs) [y] + 1) (length (a # xs) + 2))
       (length (a # xs) + (if x = y then 0 else 1))"
    by (simp add: lev_Nil2 min.commute)
  finally show ?case .
qed

lemma lev_snoc:
  "lev (xs @ [x]) (ys @ [y]) =
     min (min (lev xs (ys @ [y]) + 1) (lev (xs @ [x]) ys + 1)) (lev xs ys + (if x = y then 0 else 1))"
proof (induction xs ys rule: lev.induct)
  case (1 ys)
  show ?case using lev_snoc_Nil1[of x ys y] by simp
next
  case (2 a xs)
  show ?case using lev_snoc_Nil2[of "a # xs" x y] by (simp add: lev_Nil2)
next
  case (3 a xs b ys)
  have e1: "lev ((a # xs) @ [x]) ((b # ys) @ [y]) =
      min (min (lev (xs @ [x]) ((b # ys) @ [y]) + 1) (lev ((a # xs) @ [x]) (ys @ [y]) + 1))
          (lev (xs @ [x]) (ys @ [y]) + (if a = b then 0 else 1))"
    by simp
  have e2: "lev (a # xs) ((b # ys) @ [y]) =
      min (min (lev xs ((b # ys) @ [y]) + 1) (lev (a # xs) (ys @ [y]) + 1))
          (lev xs (ys @ [y]) + (if a = b then 0 else 1))"
    by simp
  have e3: "lev ((a # xs) @ [x]) (b # ys) =
      min (min (lev (xs @ [x]) (b # ys) + 1) (lev ((a # xs) @ [x]) ys + 1))
          (lev (xs @ [x]) ys + (if a = b then 0 else 1))"
    by simp
  have e4: "lev (a # xs) (b # ys) =
      min (min (lev xs (b # ys) + 1) (lev (a # xs) ys + 1))
          (lev xs ys + (if a = b then 0 else 1))"
    by simp
  show ?case
    unfolding e1 "3.IH"(1) "3.IH"(2) "3.IH"(3) e2 e3 e4
    by (rule min9)
qed


lemma length_levRow [simp]: "length (levRow str1 str2 i n) = Suc n"
  by (simp add: levRow_def)

lemma levRow_nth: "j \<le> n \<Longrightarrow> levRow str1 str2 i n ! j = lev (take i str1) (take j str2)"
  unfolding levRow_def
  by (metis add_0 le_imp_less_Suc nth_map_upt diff_zero)

lemma levRow_Suc:
  "levRow str1 str2 i (Suc n) = levRow str1 str2 i n @ [lev (take i str1) (take (Suc n) str2)]"
  by (simp add: levRow_def)

lemma fillCell_step:
  assumes i: "0 < i" "i \<le> length str1" and n: "n < length str2"
  shows "fillCell str1 str2 i (levRow str1 str2 (i - 1) (length str2)) (levRow str1 str2 i n) (Suc n)
         = levRow str1 str2 i (Suc n)"
proof -
  obtain k where k: "i = Suc k" using i(1) by (cases i) auto
  have kl: "k < length str1" using i(2) k by simp
  have t1: "take (Suc k) str1 = take k str1 @ [str1 ! k]"
    using kl by (simp add: take_Suc_conv_app_nth)
  have t2: "take (Suc n) str2 = take n str2 @ [str2 ! n]"
    using n by (simp add: take_Suc_conv_app_nth)
  have p1: "levRow str1 str2 k (length str2) ! Suc n = lev (take k str1) (take (Suc n) str2)"
    using n by (simp add: levRow_nth)
  have p2: "levRow str1 str2 k (length str2) ! n = lev (take k str1) (take n str2)"
    using n by (simp add: levRow_nth)
  have p3: "levRow str1 str2 (Suc k) n ! n = lev (take (Suc k) str1) (take n str2)"
    by (simp add: levRow_nth)
  have "lev (take (Suc k) str1) (take (Suc n) str2) =
     min (min (lev (take k str1) (take (Suc n) str2) + 1) (lev (take (Suc k) str1) (take n str2) + 1))
         (lev (take k str1) (take n str2) + (if str1 ! k = str2 ! n then 0 else 1))"
    unfolding t1 t2 by (rule lev_snoc[unfolded t2[symmetric] t1[symmetric]] lev_snoc)
  then show ?thesis
    unfolding fillCell_def Let_def levRow_Suc k
    by (simp only: p1 p2 p3 diff_Suc_1)
qed

lemma fillRow_inner:
  assumes i: "0 < i" "i \<le> length str1" and n: "n \<le> length str2"
  shows "foldl (fillCell str1 str2 i (levRow str1 str2 (i - 1) (length str2))) [i] [1..<Suc n]
         = levRow str1 str2 i n"
  using n
proof (induction n)
  case 0
  have "lev (take i str1) [] = i" using i by (simp add: lev_Nil2)
  then show ?case by (simp add: levRow_def)
next
  case (Suc n)
  have "[1..<Suc (Suc n)] = [1..<Suc n] @ [Suc n]" by simp
  then show ?case
    using Suc fillCell_step[OF i, of n] by (simp del: upt_Suc)
qed

lemma fillRow_outer:
  assumes "m \<le> length str1"
  shows "foldl (fillRow str1 str2) [[0..<Suc (length str2)]] [1..<Suc m] = levMatrix str1 str2 m"
  using assms
proof (induction m)
  case 0
  have "map (\<lambda>j. lev (take 0 str1) (take j str2)) [0..<Suc (length str2)] = map (\<lambda>j. j) [0..<Suc (length str2)]"
    by (rule map_cong) auto
  then have "levRow str1 str2 0 (length str2) = [0..<Suc (length str2)]"
    unfolding levRow_def by simp
  moreover have "levMatrix str1 str2 0 = [levRow str1 str2 0 (length str2)]"
    unfolding levMatrix_def by simp
  moreover have "[1..<Suc 0] = []" by simp
  ultimately show ?case by (simp only: foldl_Nil)
next
  case (Suc m)
  have u: "[1..<Suc (Suc m)] = [1..<Suc m] @ [Suc m]" by simp
  have prev: "levMatrix str1 str2 m ! m = levRow str1 str2 m (length str2)"
    unfolding levMatrix_def by (metis add_0 lessI nth_map_upt diff_zero)
  have row: "foldl (fillCell str1 str2 (Suc m) (levRow str1 str2 (Suc m - 1) (length str2))) [Suc m] [1..<Suc (length str2)]
         = levRow str1 str2 (Suc m) (length str2)"
    using Suc.prems by (intro fillRow_inner) auto
  have "foldl (fillRow str1 str2) [[0..<Suc (length str2)]] [1..<Suc (Suc m)]
      = fillRow str1 str2 (levMatrix str1 str2 m) (Suc m)"
    using Suc by (simp only: u foldl_append) simp
  also have "\<dots> = levMatrix str1 str2 m @ [levRow str1 str2 (Suc m) (length str2)]"
    unfolding fillRow_def using row prev by simp
  also have "\<dots> = levMatrix str1 str2 (Suc m)"
    by (simp add: levMatrix_def)
  finally show ?case .
qed

lemma levenshteinDistance_lev: "levenshteinDistance str1 str2 = lev str1 str2"
proof -
  have "levMatrix str1 str2 (length str1) ! length str1 ! length str2 = lev str1 str2"
  proof -
    have "levMatrix str1 str2 (length str1) ! length str1 = levRow str1 str2 (length str1) (length str2)"
      unfolding levMatrix_def by (metis add_0 lessI nth_map_upt diff_zero)
    then show ?thesis by (simp add: levRow_nth)
  qed
  moreover have "foldl (fillRow str1 str2) [[0..<Suc (length str2)]] [1..<Suc (length str1)]
       = levMatrix str1 str2 (length str1)"
    by (rule fillRow_outer) simp
  ultimately show ?thesis
    unfolding levenshteinDistance_def Let_def
    by (simp add: lev_Nil2 del: upt_Suc)
qed

lemma searchFillCell_eq: "searchFillCell = fillCell"
  by (intro ext) (simp add: searchFillCell_def fillCell_def)

lemma searchFillRow_eq: "searchFillRow = fillRow"
  by (intro ext) (simp add: searchFillRow_def fillRow_def searchFillCell_eq)

lemma searchLevenshteinDistance_eq: "searchLevenshteinDistance = levenshteinDistance"
  by (intro ext) (simp add: searchLevenshteinDistance_def levenshteinDistance_def Let_def searchFillRow_eq del: upt_Suc)

text \<open>
  Claim C7. For all strings, the processor's and the search engine's
  \<^verbatim>\<open>levenshteinDistance\<close> both return the edit distance of the recursive reference
  definition (unit cost for insertion, deletion and substitution), and the two
  implementations are equal as functions.
\<close>

theorem C7_levenshtein_correct:
  "levenshteinDistance s1 s2 = lev s1 s2
   \<and> searchLevenshteinDistance s1 s2 = lev s1 s2
   \<and> levenshteinDistance = searchLevenshteinDistance"
  by (simp add: levenshteinDistance_lev searchLevenshteinDistance_eq)


section \<open>Deduplication\<close>

lemma find_filter_conv: "find P xs = (case filter P xs of [] \<Rightarrow> None | x # _ \<Rightarrow> Some x)"
  by (induction xs) auto

lemma find_Some_mem: "find P xs = Some x \<Longrightarrow> x \<in> set xs \<and> P x"
  by (induction xs) (auto split: if_splits)

lemma findExistingEntity_cases:
  "findExistingEntity ents key ty =
     (case exactMatches ents key ty of
        (i, e) # _ \<Rightarrow> Some i
      | [] \<Rightarrow> (if length key > 5
                then (case fuzzyMatches ents key ty of (i, e) # _ \<Rightarrow> Some i | [] \<Rightarrow> None)
                else None))"
  unfolding findExistingEntity_def exactMatches_def fuzzyMatches_def find_filter_conv levenshteinDistance_lev
  by (auto split: list.splits)

lemma findExistingEntity_mem:
  "findExistingEntity ents key ty = Some i \<Longrightarrow> i \<in> fst ` set ents"
  unfolding findExistingEntity_def
  by (auto split: option.splits if_splits dest!: find_Some_mem) force+

subsection \<open>Ids built by the template\<close>

lemma underscores_append [simp]: "underscores (a @ b) = underscores a + underscores b"
  by (simp add: underscores_def)

lemma underscores_zero: "underscores s = 0 \<longleftrightarrow> CHR ''_'' \<notin> set s"
  by (induction s) (auto simp: underscores_def)

lemma digit_not_us: "m < 10 \<Longrightarrow> char_of (48 + m :: nat) \<noteq> CHR ''_''"
proof
  assume m: "m < 10" and eq: "char_of (48 + m) = CHR ''_''"
  then have "of_char (char_of (48 + m) :: char) = (of_char (CHR ''_'') :: nat)" by simp
  then have "(48 + m) mod 256 = (95 :: nat)" by (simp add: of_char_of)
  with m show False by simp
qed

lemma decimal_no_us: "CHR ''_'' \<notin> set (decimal n)"
proof (induction n rule: decimal.induct)
  case (1 n)
  show ?case
  proof (cases "n < 10")
    case True
    then show ?thesis using digit_not_us[of n] by (subst decimal.simps) auto
  next
    case False
    have "n mod 10 < 10" by simp
    from digit_not_us[OF this] 1[OF False] False show ?thesis
      by (subst decimal.simps) auto
  qed
qed

lemma base36_no_us: "base36 d \<noteq> CHR ''_''"
proof -
  have "d mod 36 < length ''0123456789abcdefghijklmnopqrstuvwxyz''" by simp
  then have "base36 d \<in> set ''0123456789abcdefghijklmnopqrstuvwxyz''"
    unfolding base36_def by (rule nth_mem)
  then show ?thesis by auto
qed

lemma randomSuffix_no_us: "CHR ''_'' \<notin> set (randomSuffix ev k)"
proof
  assume "CHR ''_'' \<in> set (randomSuffix ev k)"
  then obtain d where "base36 d = CHR ''_''" unfolding randomSuffix_def by auto
  with base36_no_us show False by blast
qed

lemma typeName_no_us: "CHR ''_'' \<notin> set (typeName t)"
  by (cases t) simp_all

lemma suffix_nil:
  assumes "underscores d = 0" and "last (w @ d) = CHR ''_''"
  shows "d = []"
proof (rule ccontr)
  assume ne: "d \<noteq> []"
  then have "last (w @ d) = last d" by (rule last_appendR)
  with assms(2) have ld: "last d = CHR ''_''" by (simp only:)
  from ne have "last d \<in> set d" by (rule last_in_set)
  then have "CHR ''_'' \<in> set d" unfolding ld .
  with assms(1) underscores_zero[of d] show False by blast
qed

lemma prefix_unique_gen:
  assumes eq: "p @ r = q @ s" and n: "underscores r = underscores s"
    and p: "last p = CHR ''_''" and q: "last q = CHR ''_''"
  shows "p = q \<and> r = s"
proof -
  from eq have "\<exists>d. (p = q @ d \<and> d @ r = s) \<or> (p @ d = q \<and> r = d @ s)"
    by (simp only: append_eq_append_conv2)
  then obtain d where d: "(p = q @ d \<and> d @ r = s) \<or> (p @ d = q \<and> r = d @ s)" ..
  from d show ?thesis
  proof
    assume h: "p = q @ d \<and> d @ r = s"
    then have h1: "p = q @ d" and h2: "d @ r = s" by blast+
    have "underscores (d @ r) = underscores d + underscores r" by (rule underscores_append)
    with h2 n have "underscores d = 0" by (simp only: add_cancel_right_left)
    moreover from p h1 have "last (q @ d) = CHR ''_''" by (simp only:)
    ultimately have dn: "d = []" by (rule suffix_nil)
    from h1 h2 show ?thesis unfolding dn by (simp only: append_Nil2 append_Nil simp_thms)
  next
    assume h: "p @ d = q \<and> r = d @ s"
    then have h1: "p @ d = q" and h2: "r = d @ s" by blast+
    have "underscores (d @ s) = underscores d + underscores s" by (rule underscores_append)
    with h2 n have "underscores d = 0" by (simp only: add_cancel_right_left)
    moreover from q h1 have "last (p @ d) = CHR ''_''" by (simp only:)
    ultimately have dn: "d = []" by (rule suffix_nil)
    from h1 h2 show ?thesis unfolding dn by (simp only: append_Nil2 append_Nil simp_thms)
  qed
qed

lemma first_field:
  assumes "a @ CHR ''_'' # r = b @ CHR ''_'' # s" and "CHR ''_'' \<notin> set a" and "CHR ''_'' \<notin> set b"
  shows "a = b \<and> r = s"
  using assms
proof (induction a arbitrary: b)
  case Nil
  then show ?case by (cases b) auto
next
  case (Cons x a)
  then show ?case by (cases b) auto
qed

lemma typeName_inj: "typeName a = typeName b \<Longrightarrow> a = b"
  by (cases a; cases b) simp_all

lemma newEntityId_fresh:
  assumes t: "idsTemplated m" and ex: "exactMatches m key ty = []"
  shows "typeName ty @ ''_'' @ key @ ''_'' @ decimal n @ ''_'' @ randomSuffix ev k \<notin> fst ` set m"
proof
  let ?i = "typeName ty @ ''_'' @ key @ ''_'' @ decimal n @ ''_'' @ randomSuffix ev k"
  assume "?i \<in> fst ` set m"
  then obtain e where mem: "(?i, e) \<in> set m" by auto
  let ?pre = "typeName (typeE e) @ ''_'' @ normalizedKey e @ ''_''"
  from t mem have tm: "templated (?i, e)" by (auto simp: idsTemplated_def list_all_iff)
  then have tk: "take (length ?pre) ?i = ?pre" and one: "underscores (drop (length ?pre) ?i) = 1"
    by (simp_all add: templated_def Let_def underscores_def)
  have split: "?pre @ drop (length ?pre) ?i = ?i"
    using tk append_take_drop_id[of "length ?pre" ?i] by simp
  have rest: "underscores (decimal n @ ''_'' @ randomSuffix ev k) = 1"
    using decimal_no_us[of n] randomSuffix_no_us[of ev k]
    by (simp add: underscores_zero[symmetric]) (simp add: underscores_def)
  have "(typeName ty @ ''_'' @ key @ ''_'') @ (decimal n @ ''_'' @ randomSuffix ev k)
          = ?pre @ drop (length ?pre) ?i"
    using split by simp
  from prefix_unique_gen[OF this] rest one
  have "typeName ty @ ''_'' @ key @ ''_'' = ?pre" by simp
  then have "typeName ty @ CHR ''_'' # key = typeName (typeE e) @ CHR ''_'' # normalizedKey e" by simp
  from first_field[OF this typeName_no_us typeName_no_us]
  have "typeName ty = typeName (typeE e)" "key = normalizedKey e" by simp_all
  then have "typeE e = ty" "normalizedKey e = key" using typeName_inj by auto
  with mem have "(?i, e) \<in> set (exactMatches m key ty)" by (simp add: exactMatches_def)
  with ex show False by simp
qed

lemma update_fresh: "k \<notin> fst ` set m \<Longrightarrow> AList.update k v m = m @ [(k, v)]"
  by (induction m) auto

lemma templated_nonempty: "templated ie \<Longrightarrow> fst ie \<noteq> []"
  by (auto simp: templated_def Let_def)

lemma newEntity_templated:
  "templated (newEntityId p ev c key, newEntity (newEntityId p ev c key) c key ts)"
proof -
  have "underscores (decimal (clock ev (ticks p)) @ ''_'' @ randomSuffix ev (ticks p)) = 1"
    using decimal_no_us[of "clock ev (ticks p)"] randomSuffix_no_us[of ev "ticks p"]
    by (simp add: underscores_zero[symmetric]) (simp add: underscores_def)
  then show ?thesis
    by (simp add: templated_def Let_def newEntityId_def newEntity_def underscores_def)
qed

text \<open>
  Claim C1. In a map whose ids are built by the template of \<^verbatim>\<open>getOrCreateEntity\<close>: if
  an entity of the candidate's type has the candidate's normalized key,
  \<^verbatim>\<open>getOrCreateEntity\<close> returns the id of the first such entity in map order and leaves
  the map as it is; otherwise, if the key is longer than 5 and an entity of the type has a
  key within edit distance 2, it returns the first such entity's id and leaves the map as
  it is; otherwise it returns an id that no entity of the map has, and the map gains one
  entry at its end: a new entity under this id, with no occurrences, whose \<open>firstSeen\<close>
  and \<open>lastSeen\<close> are the given timestamp. In each case the ids of the map it leaves are
  built by the template again.
\<close>

theorem C1_resolve:
  assumes tm: "idsTemplated (entities p)"
  shows "(exactMatches (entities p) (normalizeEntityName (nameC c)) (typeC c) \<noteq> [] \<longrightarrow>
            getOrCreateEntity p ev c cid ts =
              (fst (hd (exactMatches (entities p) (normalizeEntityName (nameC c)) (typeC c))), p))
       \<and> (exactMatches (entities p) (normalizeEntityName (nameC c)) (typeC c) = []
            \<and> length (normalizeEntityName (nameC c)) > 5
            \<and> fuzzyMatches (entities p) (normalizeEntityName (nameC c)) (typeC c) \<noteq> [] \<longrightarrow>
            getOrCreateEntity p ev c cid ts =
              (fst (hd (fuzzyMatches (entities p) (normalizeEntityName (nameC c)) (typeC c))), p))
       \<and> (exactMatches (entities p) (normalizeEntityName (nameC c)) (typeC c) = []
            \<and> (length (normalizeEntityName (nameC c)) \<le> 5
                \<or> fuzzyMatches (entities p) (normalizeEntityName (nameC c)) (typeC c) = []) \<longrightarrow>
            newEntityId p ev c (normalizeEntityName (nameC c)) \<notin> fst ` set (entities p)
            \<and> getOrCreateEntity p ev c cid ts =
              (newEntityId p ev c (normalizeEntityName (nameC c)),
               p\<lparr>entities := entities p @
                               [(newEntityId p ev c (normalizeEntityName (nameC c)),
                                 newEntity (newEntityId p ev c (normalizeEntityName (nameC c))) c
                                   (normalizeEntityName (nameC c)) ts)],
                 ticks := Suc (ticks p)\<rparr>))
       \<and> occurrences (newEntity i c k ts) = 0
       \<and> firstSeen (newEntity i c k ts) = ts \<and> lastSeen (newEntity i c k ts) = ts
       \<and> idE (newEntity i c k ts) = i \<and> typeE (newEntity i c k ts) = typeC c
       \<and> normalizedKey (newEntity i c k ts) = k
       \<and> idsTemplated (entities (snd (getOrCreateEntity p ev c cid ts)))"
proof -
  let ?key = "normalizeEntityName (nameC c)"
  let ?ex = "exactMatches (entities p) ?key (typeC c)"
  let ?fz = "fuzzyMatches (entities p) ?key (typeC c)"
  let ?new = "newEntityId p ev c ?key"
  have nonempty: "fst x \<noteq> []" if "x \<in> set (entities p)" for x
    using tm that templated_nonempty by (auto simp: idsTemplated_def list_all_iff)
  have exne: "fst (hd ?ex) \<noteq> []" if "?ex \<noteq> []"
  proof -
    have "hd ?ex \<in> set ?ex" using that by simp
    then have "hd ?ex \<in> set (entities p)" by (simp add: exactMatches_def)
    then show ?thesis by (rule nonempty)
  qed
  have fzne: "fst (hd ?fz) \<noteq> []" if "?fz \<noteq> []"
  proof -
    have "hd ?fz \<in> set ?fz" using that by simp
    then have "hd ?fz \<in> set (entities p)" by (simp add: fuzzyMatches_def)
    then show ?thesis by (rule nonempty)
  qed
  have found: "getOrCreateEntity p ev c cid ts = (fst (hd ?ex), p)" if a: "?ex \<noteq> []"
  proof -
    from a obtain x xs where x: "?ex = x # xs" by (cases ?ex) auto
    with exne[OF a] show ?thesis
      by (cases x) (simp add: getOrCreateEntity_def Let_def findExistingEntity_cases)
  qed
  have near: "getOrCreateEntity p ev c cid ts = (fst (hd ?fz), p)"
    if a: "?ex = [] \<and> 5 < length ?key \<and> ?fz \<noteq> []"
  proof -
    from a obtain x xs where x: "?fz = x # xs" by (cases ?fz) auto
    with a fzne show ?thesis
      by (cases x) (simp add: getOrCreateEntity_def Let_def findExistingEntity_cases)
  qed
  have fresh: "?new \<notin> fst ` set (entities p)" if "?ex = []"
    unfolding newEntityId_def using newEntityId_fresh[OF tm that] .
  have created: "getOrCreateEntity p ev c cid ts =
              (?new, p\<lparr>entities := entities p @ [(?new, newEntity ?new c ?key ts)],
                       ticks := Suc (ticks p)\<rparr>)"
    if a: "?ex = [] \<and> (length ?key \<le> 5 \<or> ?fz = [])"
  proof -
    from a have "findExistingEntity (entities p) ?key (typeC c) = None"
      by (auto simp: findExistingEntity_cases)
    then have "getOrCreateEntity p ev c cid ts =
              (?new, p\<lparr>entities := AList.update ?new (newEntity ?new c ?key ts) (entities p),
                       ticks := Suc (ticks p)\<rparr>)"
      by (simp add: getOrCreateEntity_def Let_def)
    with fresh a show ?thesis by (simp add: update_fresh)
  qed
  have inv: "idsTemplated (entities (snd (getOrCreateEntity p ev c cid ts)))"
  proof (cases "?ex \<noteq> []")
    case True
    with found tm show ?thesis by simp
  next
    case ex: False
    show ?thesis
    proof (cases "5 < length ?key \<and> ?fz \<noteq> []")
      case True
      with ex near tm show ?thesis by simp
    next
      case False
      with ex have "?ex = [] \<and> (length ?key \<le> 5 \<or> ?fz = [])" by auto
      from created[OF this] tm newEntity_templated[of p ev c ?key ts]
      show ?thesis by (simp add: idsTemplated_def)
    qed
  qed
  show ?thesis
    using found near fresh created inv by (simp add: newEntity_def)
qed

lemma getOrCreateEntity_key:
  "fst (getOrCreateEntity p ev c cid ts) \<in> fst ` set (entities (snd (getOrCreateEntity p ev c cid ts)))"
  unfolding getOrCreateEntity_def Let_def
  by (auto split: option.splits simp: dom_update dest: findExistingEntity_mem)

text \<open>
  Claim C10. The id that \<^verbatim>\<open>getOrCreateEntity\<close> returns is a key of the entity map it
  leaves, so the lookup that follows in \<^verbatim>\<open>processConversation\<close> finds the entity: the
  loop body never throws.
\<close>

theorem C10_entity_lookup_succeeds:
  "(\<exists>e. map_of (entities (snd (getOrCreateEntity p ev c cid ts))) (fst (getOrCreateEntity p ev c cid ts)) = Some e)
   \<and> (\<exists>p'. resolveStep ev cid ts (p, ids) c = Inr (p', ids @ [fst (getOrCreateEntity p ev c cid ts)]))"
proof -
  obtain i p1 where g: "getOrCreateEntity p ev c cid ts = (i, p1)" by (cases "getOrCreateEntity p ev c cid ts")
  from getOrCreateEntity_key[of p ev c cid ts] g have "i \<in> fst ` set (entities p1)" by simp
  then obtain e where e: "map_of (entities p1) i = Some e"
    by (metis map_of_eq_None_iff not_Some_eq)
  show ?thesis
    using g e by (simp add: resolveStep_def Let_def)
qed

lemma processorWithJohn_ids: "idsTemplated (entities processorWithJohn)"
  by (simp add: processorWithJohn_def newProcessor_def johnSmith_def idsTemplated_def templated_def)

lemma key_JOHN: "normalizeEntityName (nameC (personCandidate ''JOHN SMITH!'')) = ''john smith''"
  by code_simp

lemma exact_JOHN:
  "exactMatches (entities processorWithJohn) ''john smith''
     (typeC (personCandidate ''JOHN SMITH!'')) = [(''person_john smith_0_r'', johnSmith)]"
  by code_simp

lemma exact_Jon:
  "exactMatches (entities processorWithJohn) ''jon smith''
     (typeC (personCandidate ''Jon Smith'')) = []"
  by code_simp

lemma fuzzy_Jon:
  "fuzzyMatches (entities processorWithJohn) ''jon smith''
     (typeC (personCandidate ''Jon Smith'')) = [(''person_john smith_0_r'', johnSmith)]"
  unfolding fuzzyMatches_def levenshteinDistance_lev[symmetric]
  by code_simp

lemma key_Jon: "normalizeEntityName (nameC (personCandidate ''Jon Smith'')) = ''jon smith''"
  by code_simp

lemma exact_Ann:
  "exactMatches (entities processorWithJohn) ''ann''
     (typeC (personCandidate ''Ann'')) = []"
  by code_simp

lemma key_Ann: "normalizeEntityName (nameC (personCandidate ''Ann'')) = ''ann''"
  by code_simp

lemma newId_Ann: "newEntityId processorWithJohn exampleEnv (personCandidate ''Ann'') ''ann'' = ''person_ann_0_r''"
  by code_simp

lemma entities_John: "entities processorWithJohn = [(''person_john smith_0_r'', johnSmith)]"
  by (simp add: processorWithJohn_def)

lemma exact_Ann_list:
  "exactMatches [(''person_john smith_0_r'', johnSmith)] ''ann'' (typeC (personCandidate ''Ann'')) = []"
  using exact_Ann by (simp only: entities_John)

theorem C1_resolve_witness:
  "idsTemplated (entities processorWithJohn)
   \<and> getOrCreateEntity processorWithJohn exampleEnv (personCandidate ''JOHN SMITH!'') (Some ''c2'') (Num 200)
     = (''person_john smith_0_r'', processorWithJohn)
   \<and> getOrCreateEntity processorWithJohn exampleEnv (personCandidate ''Jon Smith'') (Some ''c2'') (Num 200)
     = (''person_john smith_0_r'', processorWithJohn)
   \<and> ''person_ann_0_r'' \<notin> fst ` set (entities processorWithJohn)
   \<and> getOrCreateEntity processorWithJohn exampleEnv (personCandidate ''Ann'') (Some ''c2'') (Num 200)
     = (''person_ann_0_r'',
        processorWithJohn\<lparr>entities :=
            [(''person_john smith_0_r'', johnSmith),
             (''person_ann_0_r'', newEntity ''person_ann_0_r'' (personCandidate ''Ann'') ''ann'' (Num 200))],
          ticks := Suc 0\<rparr>)
   \<and> occurrences (newEntity ''person_ann_0_r'' (personCandidate ''Ann'') ''ann'' (Num 200)) = 0
   \<and> firstSeen (newEntity ''person_ann_0_r'' (personCandidate ''Ann'') ''ann'' (Num 200)) = Num 200
   \<and> lastSeen (newEntity ''person_ann_0_r'' (personCandidate ''Ann'') ''ann'' (Num 200)) = Num 200"
proof -
  note h = processorWithJohn_ids
  have a: "getOrCreateEntity processorWithJohn exampleEnv (personCandidate ''JOHN SMITH!'') (Some ''c2'') (Num 200)
     = (''person_john smith_0_r'', processorWithJohn)"
    using C1_resolve[OF h, of "personCandidate ''JOHN SMITH!''" exampleEnv "Some ''c2''" "Num 200"]
    by (simp add: key_JOHN exact_JOHN)
  have b: "getOrCreateEntity processorWithJohn exampleEnv (personCandidate ''Jon Smith'') (Some ''c2'') (Num 200)
     = (''person_john smith_0_r'', processorWithJohn)"
    using C1_resolve[OF h, of "personCandidate ''Jon Smith''" exampleEnv "Some ''c2''" "Num 200"]
    by (simp add: exact_Jon fuzzy_Jon key_Jon)
  have t0: "ticks processorWithJohn = 0"
    by (simp add: processorWithJohn_def newProcessor_def)
  have c: "''person_ann_0_r'' \<notin> fst ` set (entities processorWithJohn)
     \<and> getOrCreateEntity processorWithJohn exampleEnv (personCandidate ''Ann'') (Some ''c2'') (Num 200)
     = (''person_ann_0_r'',
        processorWithJohn\<lparr>entities :=
            [(''person_john smith_0_r'', johnSmith),
             (''person_ann_0_r'', newEntity ''person_ann_0_r'' (personCandidate ''Ann'') ''ann'' (Num 200))],
          ticks := Suc 0\<rparr>)"
    using C1_resolve[OF h, of "personCandidate ''Ann''" exampleEnv "Some ''c2''" "Num 200"]
    by (simp add: exact_Ann_list key_Ann newId_Ann entities_John t0)
  have d: "occurrences (newEntity ''person_ann_0_r'' (personCandidate ''Ann'') ''ann'' (Num 200)) = 0
     \<and> firstSeen (newEntity ''person_ann_0_r'' (personCandidate ''Ann'') ''ann'' (Num 200)) = Num 200
     \<and> lastSeen (newEntity ''person_ann_0_r'' (personCandidate ''Ann'') ''ann'' (Num 200)) = Num 200"
    by (simp add: newEntity_def)
  from h a b c d show ?thesis by simp
qed

theorem C10_entity_lookup_succeeds_witness:
  "(\<exists>e. map_of (entities (snd (getOrCreateEntity processorWithJohn exampleEnv (personCandidate ''Ann'') (Some ''c2'') (Num 200))))
            (fst (getOrCreateEntity processorWithJohn exampleEnv (personCandidate ''Ann'') (Some ''c2'') (Num 200))) = Some e)
   \<and> (\<exists>p'. resolveStep exampleEnv (Some ''c2'') (Num 200) (processorWithJohn, []) (personCandidate ''Ann'')
            = Inr (p', [] @ [fst (getOrCreateEntity processorWithJohn exampleEnv (personCandidate ''Ann'') (Some ''c2'') (Num 200))]))"
  by (rule C10_entity_lookup_succeeds)

section \<open>Fuzzy search\<close>





























section \<open>Viewport culling\<close>

lemma visibleNodes_update:
  "set (visibleNodes (updateVisibleElements r)) =
     {i. i < length (nodes r) \<and> visible (nodes r ! i) \<and> inView r (nodes r ! i)}"
  by (auto simp: updateVisibleElements_def Let_def)

lemma idN_inj:
  assumes "distinct (map idN ns)" "i < length ns" "j < length ns" "idN (ns ! i) = idN (ns ! j)"
  shows "i = j"
  using assms by (metis distinct_conv_nth length_map nth_map)

lemma visibleEdges_update:
  assumes wf: "wellFormed r"
  shows "set (visibleEdges (updateVisibleElements r)) =
     {e \<in> set (edges r). fst e \<in> set (visibleNodes (updateVisibleElements r))
                        \<and> snd e \<in> set (visibleNodes (updateVisibleElements r))}"
proof -
  let ?vis = "filter (\<lambda>i. visible (nodes r ! i) \<and> inView r (nodes r ! i)) [0..<length (nodes r)]"
  have d: "distinct (map idN (nodes r))" using wf by (simp add: wellFormed_def)
  have key: "idN (nodes r ! k) \<in> set (map (\<lambda>i. idN (nodes r ! i)) ?vis) \<longleftrightarrow> k \<in> set ?vis"
    if "k < length (nodes r)" for k
  proof
    assume "idN (nodes r ! k) \<in> set (map (\<lambda>i. idN (nodes r ! i)) ?vis)"
    then obtain i where i: "i \<in> set ?vis" "idN (nodes r ! k) = idN (nodes r ! i)" by auto
    then have "i < length (nodes r)" by simp
    with d that i(2) have "k = i" by (metis idN_inj)
    with i(1) show "k \<in> set ?vis" by simp
  next
    assume "k \<in> set ?vis"
    then show "idN (nodes r ! k) \<in> set (map (\<lambda>i. idN (nodes r ! i)) ?vis)" by auto
  qed
  have bounds: "fst e < length (nodes r) \<and> snd e < length (nodes r)" if "e \<in> set (edges r)" for e
    using wf that by (auto simp: wellFormed_def list_all_iff)
  have vn: "visibleNodes (updateVisibleElements r) = ?vis"
    by (simp add: updateVisibleElements_def Let_def)
  have ve: "visibleEdges (updateVisibleElements r) =
      filter (\<lambda>e. idN (nodes r ! fst e) \<in> set (map (\<lambda>i. idN (nodes r ! i)) ?vis)
                 \<and> idN (nodes r ! snd e) \<in> set (map (\<lambda>i. idN (nodes r ! i)) ?vis)) (edges r)"
    by (simp add: updateVisibleElements_def Let_def)
  show ?thesis
    unfolding vn ve using key bounds by (auto simp del: set_filter set_map simp add: set_filter[of _ "edges r"])
qed

lemma filterByType_nodes:
  "i < length (nodes r) \<Longrightarrow>
     visible (nodes (filterByType ts r) ! i) = (ts = [] \<or> typeN (nodes r ! i) \<in> set ts)"
  by (simp add: filterByType_def)

lemma inView_visible: "inView r (n\<lparr>visible := b\<rparr>) = inView r n"
  by (simp add: inView_def)

lemma inView_filterByType: "inView (filterByType ts r) n = inView r n"
  by (simp add: inView_def filterByType_def viewLeft_def viewRight_def viewTop_def viewBottom_def)

text \<open>
  Claim C6. For every renderer whose nodes have distinct ids and whose edges join nodes
  of the list, whatever the offsets, the scale and the canvas size: the culled node set
  holds exactly the nodes whose \<open>visible\<close> flag is set and whose coordinates lie between
  \<^verbatim>\<open>-offsetX / scale - 100\<close> and \<^verbatim>\<open>(width - offsetX) / scale + 100\<close> and between
  \<^verbatim>\<open>-offsetY / scale - 100\<close> and \<^verbatim>\<open>(height - offsetY) / scale + 100\<close>, the bounds being
  the binary64 values that these expressions compute; the culled edge set holds exactly
  the edges with both ends in the culled node set; and after \<^verbatim>\<open>filterByType\<close> a node is
  culled in exactly when its type passes the filter and it lies between these bounds.
\<close>

theorem C6_viewport_culling:
  assumes wf: "wellFormed r"
  shows "set (visibleNodes (updateVisibleElements r)) =
           {i. i < length (nodes r) \<and> visible (nodes r ! i)
               \<and> dle (dsub (ddiv (dneg (offsetX (view r))) (scale (view r))) (Num 100)) (xN (nodes r ! i))
               \<and> dle (xN (nodes r ! i)) (dadd (ddiv (dsub (width r) (offsetX (view r))) (scale (view r))) (Num 100))
               \<and> dle (dsub (ddiv (dneg (offsetY (view r))) (scale (view r))) (Num 100)) (yN (nodes r ! i))
               \<and> dle (yN (nodes r ! i)) (dadd (ddiv (dsub (height r) (offsetY (view r))) (scale (view r))) (Num 100))}
       \<and> set (visibleEdges (updateVisibleElements r)) =
           {e \<in> set (edges r). fst e \<in> set (visibleNodes (updateVisibleElements r))
                              \<and> snd e \<in> set (visibleNodes (updateVisibleElements r))}
       \<and> set (visibleNodes (updateVisibleElements (filterByType ts r))) =
           {i. i < length (nodes r) \<and> (ts = [] \<or> typeN (nodes r ! i) \<in> set ts)
               \<and> dle (dsub (ddiv (dneg (offsetX (view r))) (scale (view r))) (Num 100)) (xN (nodes r ! i))
               \<and> dle (xN (nodes r ! i)) (dadd (ddiv (dsub (width r) (offsetX (view r))) (scale (view r))) (Num 100))
               \<and> dle (dsub (ddiv (dneg (offsetY (view r))) (scale (view r))) (Num 100)) (yN (nodes r ! i))
               \<and> dle (yN (nodes r ! i)) (dadd (ddiv (dsub (height r) (offsetY (view r))) (scale (view r))) (Num 100))}"
proof -
  have iv: "inView r n =
      (dle (dsub (ddiv (dneg (offsetX (view r))) (scale (view r))) (Num 100)) (xN n)
       \<and> dle (xN n) (dadd (ddiv (dsub (width r) (offsetX (view r))) (scale (view r))) (Num 100))
       \<and> dle (dsub (ddiv (dneg (offsetY (view r))) (scale (view r))) (Num 100)) (yN n)
       \<and> dle (yN n) (dadd (ddiv (dsub (height r) (offsetY (view r))) (scale (view r))) (Num 100)))" for n
    by (simp add: inView_def viewLeft_def viewRight_def viewTop_def viewBottom_def margin_def)
  have "set (visibleNodes (updateVisibleElements (filterByType ts r))) =
      {i. i < length (nodes r) \<and> (ts = [] \<or> typeN (nodes r ! i) \<in> set ts) \<and> inView r (nodes r ! i)}"
    unfolding visibleNodes_update
    by (auto simp: inView_filterByType filterByType_nodes) (auto simp: filterByType_def inView_visible)
  then show ?thesis
    using visibleNodes_update[of r] visibleEdges_update[OF wf] unfolding iv by blast
qed

lemma ex_nodes: "visibleNodes (updateVisibleElements exampleRenderer) = [0, 1]"
  by code_simp

lemma ex_edges: "visibleEdges (updateVisibleElements exampleRenderer) = [(0, 1)]"
  by code_simp

lemma ex_filtered: "visibleNodes (updateVisibleElements (filterByType [Project] exampleRenderer)) = [1, 3]"
  by code_simp

lemma ex_bound: "viewRight exampleRenderer = xN (nodes exampleRenderer ! 1)"
  by code_simp

text \<open>
  The node on the right bound is kept, although \<^verbatim>\<open>356.6666666666667\<close> is more than
  \<open>770 / 3 + 100\<close>: the bound is the rounded value.
\<close>

lemma ex_bound_exact: "(800 - 30) / 3 + 100 < ratOf (xN (nodes exampleRenderer ! 1))"
  by code_simp

theorem C6_viewport_culling_witness:
  "wellFormed exampleRenderer
   \<and> {i. i < length (nodes exampleRenderer) \<and> visible (nodes exampleRenderer ! i)
               \<and> dle (dsub (ddiv (dneg (offsetX (view exampleRenderer))) (scale (view exampleRenderer))) (Num 100)) (xN (nodes exampleRenderer ! i))
               \<and> dle (xN (nodes exampleRenderer ! i)) (dadd (ddiv (dsub (width exampleRenderer) (offsetX (view exampleRenderer))) (scale (view exampleRenderer))) (Num 100))
               \<and> dle (dsub (ddiv (dneg (offsetY (view exampleRenderer))) (scale (view exampleRenderer))) (Num 100)) (yN (nodes exampleRenderer ! i))
               \<and> dle (yN (nodes exampleRenderer ! i)) (dadd (ddiv (dsub (height exampleRenderer) (offsetY (view exampleRenderer))) (scale (view exampleRenderer))) (Num 100))} = {0, 1}
   \<and> {e \<in> set (edges exampleRenderer).
         fst e \<in> set (visibleNodes (updateVisibleElements exampleRenderer))
         \<and> snd e \<in> set (visibleNodes (updateVisibleElements exampleRenderer))} = {(0, 1)}
   \<and> {i. i < length (nodes exampleRenderer)
           \<and> ([Project] = [] \<or> typeN (nodes exampleRenderer ! i) \<in> set [Project])
               \<and> dle (dsub (ddiv (dneg (offsetX (view exampleRenderer))) (scale (view exampleRenderer))) (Num 100)) (xN (nodes exampleRenderer ! i))
               \<and> dle (xN (nodes exampleRenderer ! i)) (dadd (ddiv (dsub (width exampleRenderer) (offsetX (view exampleRenderer))) (scale (view exampleRenderer))) (Num 100))
               \<and> dle (dsub (ddiv (dneg (offsetY (view exampleRenderer))) (scale (view exampleRenderer))) (Num 100)) (yN (nodes exampleRenderer ! i))
               \<and> dle (yN (nodes exampleRenderer ! i)) (dadd (ddiv (dsub (height exampleRenderer) (offsetY (view exampleRenderer))) (scale (view exampleRenderer))) (Num 100))} = {1, 3}"
proof -
  have wf: "wellFormed exampleRenderer"
    by (simp add: wellFormed_def exampleRenderer_def)
  note t = C6_viewport_culling[OF wf, of "[Project]"]
  note t1 = conjunct1[OF t]
  note t2 = conjunct1[OF conjunct2[OF t]]
  note t3 = conjunct2[OF conjunct2[OF t]]
  have s1: "set (visibleNodes (updateVisibleElements exampleRenderer)) = {0, 1}"
    unfolding ex_nodes by auto
  have s2: "set (visibleEdges (updateVisibleElements exampleRenderer)) = {(0, 1)}"
    unfolding ex_edges by auto
  have s3: "set (visibleNodes (updateVisibleElements (filterByType [Project] exampleRenderer))) = {1, 3}"
    unfolding ex_filtered by auto
  show ?thesis
    by (intro conjI wf trans[OF t1[symmetric] s1] trans[OF t2[symmetric] s2] trans[OF t3[symmetric] s3])
qed

end
